theory Spec2Isabelle
  imports Main
begin

section \<open>Data model of the agent configuration\<close>

text \<open>
  The two scripts under \<^verbatim>\<open>Day1/\<close> construct configuration objects of an agent SDK:
  a retry policy, a model handle carrying that policy, and trees of agents.
  The objects are translated field by field. Python strings are lists of
  characters; a line break written \<^verbatim>\<open>\n\<close> in the source is the character
  \<open>\<newline>\<close> here. Python integers are \<open>int\<close>.
\<close>

text \<open>\<^verbatim>\<open>types.HttpRetryOptions(attempts, exp_base, initial_delay, http_status_codes)\<close>\<close>

record HttpRetryOptions =
  attempts :: int
  exp_base :: int
  initial_delay :: int
  http_status_codes :: "int list"

text \<open>
  \<^verbatim>\<open>Gemini(model=..., retry_options=...)\<close>. The keyword \<^verbatim>\<open>model\<close> of the model
  handle is the field \<open>model_id\<close>, since \<open>model\<close> names the field of an agent below.
\<close>

record Gemini =
  model_id :: string
  retry_options :: HttpRetryOptions

text \<open>
  Tools and agents. \<^verbatim>\<open>FunctionTool(f)\<close> wraps a Python function, kept by its name.
  A keyword the source leaves out is \<open>None\<close> (\<^verbatim>\<open>description\<close>, \<^verbatim>\<open>output_key\<close>)
  or the empty list (\<^verbatim>\<open>tools\<close>).
\<close>

datatype tool =
    google_search
  | AgentTool agent
  | FunctionTool string
and agent =
    Agent (name: string) (model: Gemini) (description: "string option")
      (instruction: string) (tools: "tool list") (output_key: "string option")
  | SequentialAgent (name: string) (sub_agents: "agent list")
  | ParallelAgent (name: string) (sub_agents: "agent list")
  | LoopAgent (name: string) (sub_agents: "agent list") (max_iterations: int)

section \<open>Task2.py: retry configuration and model factory\<close>

definition retry_config :: HttpRetryOptions where
  "retry_config =
     \<lparr>attempts = 5, exp_base = 7, initial_delay = 1,
      http_status_codes = [429, 500, 503, 504]\<rparr>"

definition gemini_model :: "string \<Rightarrow> Gemini" where
  "gemini_model nm = \<lparr>model_id = nm, retry_options = retry_config\<rparr>"

text \<open>The default argument of \<^verbatim>\<open>gemini_model\<close>; every call in the source uses it.\<close>

definition gemini_model_default :: Gemini where
  "gemini_model_default = gemini_model ''gemini-2.5-flash-lite''"

section \<open>Task2.py: the four agent builders\<close>

definition research_agent :: agent where
  "research_agent =
     Agent ''ResearchAgent'' gemini_model_default None
       (''You are a specialized research agent. Your only job is to use the google_search tool '' @
        ''to find 2-3 pieces of relevant information on the given topic and present the findings with citations.'')
       [google_search]
       (Some ''research_findings'')"

definition summarizer_agent :: agent where
  "summarizer_agent =
     Agent ''SummarizerAgent'' gemini_model_default None
       (''Read the provided research findings: {research_findings}\<newline>'' @
        ''Create a concise summary as a bulleted list with 3-5 key points.'')
       []
       (Some ''final_summary'')"

definition build_research_summarizer_coordinator :: agent where
  "build_research_summarizer_coordinator =
     Agent ''ResearchCoordinator'' gemini_model_default None
       (''You are a research coordinator. Your goal is to answer the user's query by orchestrating a workflow.\<newline>'' @
        ''1. First, call the ResearchAgent tool to find relevant information.\<newline>'' @
        ''2. Next, call the SummarizerAgent tool to create a concise summary.\<newline>'' @
        ''3. Present the final summary clearly to the user as your response.'')
       [AgentTool research_agent, AgentTool summarizer_agent]
       None"

definition outline_agent :: agent where
  "outline_agent =
     Agent ''OutlineAgent'' gemini_model_default None
       (''Create a blog outline for the given topic with:\<newline>'' @
        ''1. A catchy headline\<newline>2. An introduction hook\<newline>3. 3-5 main sections with 2-3 bullet points for each\<newline>4. A concluding thought'')
       []
       (Some ''blog_outline'')"

definition writer_agent :: agent where
  "writer_agent =
     Agent ''WriterAgent'' gemini_model_default None
       (''Following this outline strictly: {blog_outline}\<newline>Write a brief, 200 to 300-word blog post with an engaging and informative tone.'')
       []
       (Some ''blog_draft'')"

definition editor_agent :: agent where
  "editor_agent =
     Agent ''EditorAgent'' gemini_model_default None
       (''Edit this draft: {blog_draft}\<newline>Your task is to polish the text by fixing any grammatical errors, improving the flow and sentence structure, and enhancing overall clarity.'')
       []
       (Some ''final_blog'')"

definition build_sequential_blog_pipeline :: agent where
  "build_sequential_blog_pipeline =
     SequentialAgent ''BlogPipeline'' [outline_agent, writer_agent, editor_agent]"

definition tech_researcher :: agent where
  "tech_researcher =
     Agent ''TechResearcher'' gemini_model_default None
       (''Research the latest AI/ML trends. Include 3 key developments, the main companies involved, and the potential impact. Keep the report very concise (100 words).'')
       [google_search]
       (Some ''tech_research'')"

definition health_researcher :: agent where
  "health_researcher =
     Agent ''HealthResearcher'' gemini_model_default None
       (''Research recent medical breakthroughs. Include 3 significant advances, their practical applications, and estimated timelines. Keep the report concise (100 words).'')
       [google_search]
       (Some ''health_research'')"

definition finance_researcher :: agent where
  "finance_researcher =
     Agent ''FinanceResearcher'' gemini_model_default None
       (''Research current fintech trends. Include 3 key trends, their market implications, and the future outlook. Keep the report concise (100 words).'')
       [google_search]
       (Some ''finance_research'')"

definition aggregator_agent :: agent where
  "aggregator_agent =
     Agent ''AggregatorAgent'' gemini_model_default None
       (''Combine these three research findings into a single executive summary:\<newline>\<newline>'' @
        ''**Technology Trends:**\<newline>{tech_research}\<newline>\<newline>**Health Breakthroughs:**\<newline>{health_research}\<newline>\<newline>**Finance Innovations:**\<newline>{finance_research}\<newline>\<newline>'' @
        ''Your summary should highlight common themes, surprising connections, and the most important key takeaways from all three reports. The final summary should be around 200 words.'')
       []
       (Some ''executive_summary'')"

definition parallel_team :: agent where
  "parallel_team =
     ParallelAgent ''ParallelResearchTeam''
       [tech_researcher, health_researcher, finance_researcher]"

definition build_parallel_research_system :: agent where
  "build_parallel_research_system =
     SequentialAgent ''ResearchSystem'' [parallel_team, aggregator_agent]"

text \<open>
  \<^verbatim>\<open>exit_loop()\<close> takes no argument and returns a fresh dictionary with two
  entries; the dictionary is a finite map from keys to values.
\<close>

definition exit_loop :: "unit \<Rightarrow> (string \<rightharpoonup> string)" where
  "exit_loop u =
     [''status'' \<mapsto> ''approved'',
      ''message'' \<mapsto> ''Story approved. Exiting refinement loop.'']"

definition initial_writer_agent :: agent where
  "initial_writer_agent =
     Agent ''InitialWriterAgent'' gemini_model_default None
       (''Based on the user's prompt, write the first draft of a short story (around 100-150 words).\<newline>'' @
        ''Output only the story text, with no introduction or explanation.'')
       []
       (Some ''current_story'')"

definition critic_agent :: agent where
  "critic_agent =
     Agent ''CriticAgent'' gemini_model_default None
       (''You are a constructive story critic. Review the story provided below.\<newline>'' @
        ''Story: {current_story}\<newline>\<newline>Evaluate the story's plot, characters, and pacing.\<newline>'' @
        ''- If the story is well-written and complete, YOU MUST respond with the exact phrase: 'APPROVED'\<newline>'' @
        ''- Otherwise, provide 2-3 specific, actionable suggestions for improvement.'')
       []
       (Some ''critique'')"

definition refiner_agent :: agent where
  "refiner_agent =
     Agent ''RefinerAgent'' gemini_model_default None
       (''You are a story refiner. You have a story draft and critique.\<newline>\<newline>'' @
        ''Story Draft: {current_story}\<newline>Critique: {critique}\<newline>\<newline>'' @
        ''Your task is to analyze the critique.\<newline>'' @
        ''- IF the critique is EXACTLY 'APPROVED', you MUST call the exit_loop function and nothing else.\<newline>'' @
        ''- OTHERWISE, rewrite the story draft to fully incorporate the feedback from the critique.'')
       [FunctionTool ''exit_loop'']
       (Some ''current_story'')"

definition loop_agent :: "int \<Rightarrow> agent" where
  "loop_agent max_iters =
     LoopAgent ''StoryRefinementLoop'' [critic_agent, refiner_agent] max_iters"

definition build_loop_refinement_pipeline :: "int \<Rightarrow> agent" where
  "build_loop_refinement_pipeline max_iters =
     SequentialAgent ''StoryPipeline'' [initial_writer_agent, loop_agent max_iters]"

section \<open>Task1.py: retry configuration and root agent\<close>

definition retry_config_task1 :: HttpRetryOptions where
  "retry_config_task1 =
     \<lparr>attempts = 5, exp_base = 7, initial_delay = 1,
      http_status_codes = [429, 500, 503, 504]\<rparr>"

definition root_agent :: agent where
  "root_agent =
     Agent ''helpful_assistant''
       \<lparr>model_id = ''gemini-2.5-flash-lite'', retry_options = retry_config_task1\<rparr>
       (Some ''A simple agent that can answer general questions.'')
       ''You are a helpful assistant. Use Google Search for current info or if unsure.''
       [google_search]
       None"

section \<open>The agents and pipelines of the repository\<close>

text \<open>
  The unit agents of a composed agent, in the order of construction: the agent
  itself when it is a unit agent, together with the agents it holds as
  \<^verbatim>\<open>AgentTool\<close>s, and the unit agents of every sub-agent of a composer.
\<close>

fun unit_agents :: "agent \<Rightarrow> agent list"
and tool_agents :: "tool \<Rightarrow> agent list" where
  "unit_agents (Agent n m d i ts k) = Agent n m d i ts k # concat (map tool_agents ts)"
| "unit_agents (SequentialAgent n xs) = concat (map unit_agents xs)"
| "unit_agents (ParallelAgent n xs) = concat (map unit_agents xs)"
| "unit_agents (LoopAgent n xs mi) = concat (map unit_agents xs)"
| "tool_agents google_search = []"
| "tool_agents (AgentTool a) = unit_agents a"
| "tool_agents (FunctionTool f) = []"

text \<open>The output keys configured in a pipeline, one entry per unit agent that has one.\<close>

definition output_keys :: "agent \<Rightarrow> string list" where
  "output_keys p = concat (map (\<lambda>a. case output_key a of None \<Rightarrow> [] | Some k \<Rightarrow> [k]) (unit_agents p))"

section \<open>Configuration of the API key\<close>

text \<open>
  The configuration steps run against the process environment and the standard
  output, and use the secret store of the hosting notebook when there is one.
  A Python exception is a value: \<open>Exception msg\<close> stands for any exception in the
  \<^verbatim>\<open>Exception\<close> hierarchy, with \<open>msg\<close> its \<^verbatim>\<open>str()\<close>; \<open>BaseException msg\<close>
  for one outside it (\<^verbatim>\<open>KeyboardInterrupt\<close>, \<^verbatim>\<open>SystemExit\<close>), which
  \<^verbatim>\<open>except Exception\<close> does not catch.
\<close>

datatype py_exception = Exception string | BaseException string

text \<open>
  \<^verbatim>\<open>UserSecretsClient().get_secret(name)\<close>: raises or returns the secret.
\<close>

type_synonym UserSecretsClient = "string \<Rightarrow> py_exception + string"

record process =
  environ :: "string \<rightharpoonup> string"
  stdout :: "string list"

text \<open>\<^verbatim>\<open>print(...)\<close> appends one line to the standard output.\<close>

definition print_line :: "string \<Rightarrow> process \<Rightarrow> process" where
  "print_line s w = w\<lparr>stdout := stdout w @ [s]\<rparr>"

text \<open>The two non-ASCII characters of the messages, as their UTF-8 bytes.\<close>

definition check_mark :: string where
  "check_mark = [CHR 0xE2, CHR 0x9C, CHR 0x85]"

definition key_sign :: string where
  "key_sign = [CHR 0xF0, CHR 0x9F, CHR 0x94, CHR 0x91]"

text \<open>
  Task1.py, lines 8 to 15. The argument \<open>imported\<close> is the outcome of
  \<^verbatim>\<open>from kaggle_secrets import UserSecretsClient\<close>, which sits inside the
  \<^verbatim>\<open>try\<close> block like the lookup itself. Two arguments of \<^verbatim>\<open>print\<close> are
  joined by one space.
\<close>

definition task1_configure_api_key ::
  "py_exception + UserSecretsClient \<Rightarrow> process \<Rightarrow> py_exception + process" where
  "task1_configure_api_key imported w =
     (case (case imported of Inl e \<Rightarrow> Inl e | Inr client \<Rightarrow> client ''GOOGLE_API_KEY'') of
        Inr key \<Rightarrow>
          Inr (print_line (check_mark @ '' Gemini API key setup complete.'')
                 (w\<lparr>environ := (environ w)(''GOOGLE_API_KEY'' \<mapsto> key)\<rparr>))
      | Inl (Exception msg) \<Rightarrow>
          Inr (print_line
                 (key_sign @ '' Authentication Error: Please add 'GOOGLE_API_KEY' to your Kaggle secrets. Details:'' @
                  '' '' @ msg) w)
      | Inl (BaseException msg) \<Rightarrow> Inl (BaseException msg))"

text \<open>
  Task2.py, lines 36 to 39: the optional import; an \<^verbatim>\<open>Exception\<close> leaves
  \<^verbatim>\<open>UserSecretsClient = None\<close>.
\<close>

definition import_kaggle_secrets ::
  "py_exception + UserSecretsClient \<Rightarrow> py_exception + UserSecretsClient option" where
  "import_kaggle_secrets imported =
     (case imported of
        Inr client \<Rightarrow> Inr (Some client)
      | Inl (Exception msg) \<Rightarrow> Inr None
      | Inl (BaseException msg) \<Rightarrow> Inl (BaseException msg))"

text \<open>
  Task2.py, \<^verbatim>\<open>configure_api_key_from_kaggle\<close>. \<^verbatim>\<open>if key:\<close> holds for a
  non-empty string.
\<close>

definition configure_api_key_from_kaggle ::
  "UserSecretsClient option \<Rightarrow> process \<Rightarrow> py_exception + process" where
  "configure_api_key_from_kaggle user_secrets_client w =
     (case user_secrets_client of
        None \<Rightarrow> Inr w
      | Some client \<Rightarrow>
          (case client ''GOOGLE_API_KEY'' of
             Inr key \<Rightarrow>
               (if key \<noteq> []
                then Inr (print_line (check_mark @ '' Loaded GOOGLE_API_KEY from Kaggle secrets.'')
                            (w\<lparr>environ := (environ w)(''GOOGLE_API_KEY'' \<mapsto> key)\<rparr>))
                else Inr w)
           | Inl (Exception msg) \<Rightarrow>
               Inr (print_line (''(Kaggle) couldn't read secret:'' @ '' '' @ msg) w)
           | Inl (BaseException msg) \<Rightarrow> Inl (BaseException msg)))"

text \<open>A process with nothing in its environment and nothing printed yet.\<close>

definition fresh_process :: process where
  "fresh_process = \<lparr>environ = Map.empty, stdout = []\<rparr>"

text \<open>A secret store whose lookup raises.\<close>

definition failing_client :: UserSecretsClient where
  "failing_client key = Inl (Exception ''secret not found'')"

section \<open>The run-time contract of the SDK\<close>

text \<open>
  The scripts hand their configuration to an external SDK, whose sources are not
  part of the repository. What the SDK does with a configuration is modelled
  below from the specification of the repository, one definition per contract.
\<close>

subsection \<open>Instruction templates\<close>

datatype piece = Lit char | Hole string

text \<open>
  Modelled from the spec: the template reader of the SDK is missing. An
  instruction template "may embed \<^verbatim>\<open>{key}\<close> placeholders": the text between an
  opening brace and the next closing brace is a key; an opening brace that is
  never closed stays literal text. The first argument is the key being read.
\<close>

fun template_pieces :: "string option \<Rightarrow> string \<Rightarrow> piece list" where
  "template_pieces None [] = []"
| "template_pieces (Some k) [] = map Lit (CHR ''{'' # k)"
| "template_pieces None (c # cs) =
     (if c = CHR ''{'' then template_pieces (Some []) cs
      else Lit c # template_pieces None cs)"
| "template_pieces (Some k) (c # cs) =
     (if c = CHR ''}'' then Hole k # template_pieces None cs
      else template_pieces (Some (k @ [c])) cs)"

text \<open>
  Modelled from the spec: the keys of the placeholders among the pieces of a
  template (the SDK's template reader is missing).
\<close>

fun holes :: "piece list \<Rightarrow> string list" where
  "holes [] = []"
| "holes (Lit c # ps) = holes ps"
| "holes (Hole k # ps) = k # holes ps"

text \<open>
  Modelled from the spec: the keys an instruction template refers to, in the
  order of their placeholders (the SDK's template reader is missing).
\<close>

definition placeholders :: "string \<Rightarrow> string list" where
  "placeholders t = holes (template_pieces None t)"

datatype run_error = MissingKey string | ServiceFailure int | ToolNotAvailable string

text \<open>
  Modelled from the spec: the substitution step of the SDK is missing.
  Placeholders are "resolved against Shared Execution State", "an explicit
  mapping lookup step with a documented error (signal missing key)"; the value
  is inserted as it is and not read again.
\<close>

fun fill :: "(string \<rightharpoonup> string) \<Rightarrow> piece list \<Rightarrow> run_error + string" where
  "fill st [] = Inr []"
| "fill st (Lit c # ps) = (case fill st ps of Inl e \<Rightarrow> Inl e | Inr r \<Rightarrow> Inr (c # r))"
| "fill st (Hole k # ps) =
     (case st k of
        None \<Rightarrow> Inl (MissingKey k)
      | Some v \<Rightarrow> (case fill st ps of Inl e \<Rightarrow> Inl e | Inr r \<Rightarrow> Inr (v @ r)))"

text \<open>
  Modelled from the spec: an instruction template resolved against the Shared
  Execution State (the SDK's substitution step is missing).
\<close>

definition resolve :: "(string \<rightharpoonup> string) \<Rightarrow> string \<Rightarrow> run_error + string" where
  "resolve st t = fill st (template_pieces None t)"

subsection \<open>Model calls under the retry policy\<close>

text \<open>
  One attempt of a model call ends with a text, with the request to call a
  function tool, or with an HTTP failure carrying its status code.
\<close>

datatype reply = Text string | CallFunction string | Failed int

record retry_result =
  final :: reply
  made :: nat
  slept :: "int list"

text \<open>
  Modelled from the spec: the retry loop of the SDK's HTTP client is missing.
  A failure "on a specified set of transient status codes" is retried, after a
  delay that starts at the initial delay and is multiplied by the base each
  time, while attempts remain; "non-retryable or exhausted-retry failures
  propagate immediately". \<open>ep i\<close> is the endpoint's answer to attempt \<open>i\<close>;
  the arguments are the attempts left after this one, the number of this attempt,
  the next delay, and the delays slept so far.
\<close>

fun retry_from ::
  "HttpRetryOptions \<Rightarrow> (nat \<Rightarrow> reply) \<Rightarrow> nat \<Rightarrow> nat \<Rightarrow> int \<Rightarrow> int list \<Rightarrow> retry_result" where
  "retry_from cfg ep 0 i d ds = \<lparr>final = ep i, made = Suc i, slept = ds\<rparr>"
| "retry_from cfg ep (Suc r) i d ds =
     (case ep i of
        Failed c \<Rightarrow>
          (if c \<in> set (http_status_codes cfg)
           then retry_from cfg ep r (Suc i) (d * exp_base cfg) (ds @ [d])
           else \<lparr>final = Failed c, made = Suc i, slept = ds\<rparr>)
      | Text t \<Rightarrow> \<lparr>final = Text t, made = Suc i, slept = ds\<rparr>
      | CallFunction f \<Rightarrow> \<lparr>final = CallFunction f, made = Suc i, slept = ds\<rparr>)"

text \<open>
  Modelled from the spec: a model call under a Retry Policy (the SDK's HTTP client
  is missing); \<open>attempts\<close> counts every attempt, the first one included.
\<close>

definition call_with_retry :: "HttpRetryOptions \<Rightarrow> (nat \<Rightarrow> reply) \<Rightarrow> retry_result" where
  "call_with_retry cfg ep =
     retry_from cfg ep (nat (attempts cfg) - 1) 0 (initial_delay cfg) []"

subsection \<open>Unit agents\<close>

text \<open>
  The model endpoint is a parameter of a run. Its answer may depend on the
  number of model calls made before in the run, on the name of the calling
  agent, on the resolved instruction, on the prompt and on the attempt.
\<close>

type_synonym llm = "nat \<Rightarrow> string \<Rightarrow> string \<Rightarrow> string \<Rightarrow> nat \<Rightarrow> reply"

datatype outcome = Completed | Escalated | Aborted run_error

record call =
  agent_name :: string
  resolved :: string
  answer :: reply
  signal :: outcome

record run_state =
  state :: "string \<rightharpoonup> string"
  trace :: "call list"
  response :: "string option"

text \<open>
  Modelled from the spec: the SDK's dispatch of function tools is missing. The only
  function the repository wraps as a tool is \<^verbatim>\<open>exit_loop\<close>.
\<close>

definition call_function :: "string \<Rightarrow> (string \<rightharpoonup> string) option" where
  "call_function f = (if f = ''exit_loop'' then Some (exit_loop ()) else None)"

text \<open>
  The tools the scripts designate as exit tools of a loop: none. The Loop Composer
  is constructed from a name, its sub-agents and \<^verbatim>\<open>max_iterations\<close> only
  (Task2.py, line 250); \<^verbatim>\<open>FunctionTool(exit_loop)\<close> wraps the function and
  nothing else (line 246); and \<^verbatim>\<open>exit_loop\<close> takes no argument and only
  returns its dictionary (lines 208 to 210), so it has nothing through which it
  could reach the loop.
\<close>

definition designated_exit_tools :: "string list" where
  "designated_exit_tools = []"

text \<open>
  Modelled from the spec: the Loop Termination Signal, "a sentinel value returned
  by a designated tool call" (its recognition by the SDK is missing). The spec
  names no value, so what counts is the designation of the tool that returned
  the value.
\<close>

definition is_exit_signal :: "string \<Rightarrow> (string \<rightharpoonup> string) \<Rightarrow> bool" where
  "is_exit_signal f d = (f \<in> set designated_exit_tools)"

text \<open>
  Modelled from the spec: what a unit agent's final answer means for the
  composition (the SDK's agent loop is missing). A text completes the agent; a
  failure left by the retry policy aborts; a tool-bearing agent "may, instead of
  producing a final text answer, invoke a provided callable", which escalates
  when the value it returns is the exit signal, and completes the agent without
  a text otherwise.
\<close>

definition act :: "tool list \<Rightarrow> reply \<Rightarrow> outcome" where
  "act ts r =
     (case r of
        Text t \<Rightarrow> Completed
      | Failed c \<Rightarrow> Aborted (ServiceFailure c)
      | CallFunction f \<Rightarrow>
          (if FunctionTool f \<in> set ts
           then (case call_function f of
                   None \<Rightarrow> Aborted (ToolNotAvailable f)
                 | Some d \<Rightarrow> if is_exit_signal f d then Escalated else Completed)
           else Aborted (ToolNotAvailable f)))"

text \<open>
  Modelled from the spec: a unit agent "produces a text response and, if an output
  key is configured, writes the response into that key" (the SDK's state
  handling is missing).
\<close>

definition publish :: "string option \<Rightarrow> reply \<Rightarrow> run_state \<Rightarrow> run_state" where
  "publish key r rs =
     (case r of
        Text t \<Rightarrow>
          rs\<lparr>state := (case key of None \<Rightarrow> state rs | Some k \<Rightarrow> (state rs)(k \<mapsto> t)),
             response := Some t\<rparr>
      | _ \<Rightarrow> rs)"

text \<open>
  Modelled from the spec: the Unit Agent contract (the SDK's agent class is
  missing). The instruction is resolved against the shared state, the model is
  called under the retry options of the agent's model handle, and the call is
  added to the trace.
\<close>

definition run_unit ::
  "llm \<Rightarrow> string \<Rightarrow> string \<Rightarrow> Gemini \<Rightarrow> string \<Rightarrow> tool list \<Rightarrow> string option \<Rightarrow>
   run_state \<Rightarrow> outcome \<times> run_state" where
  "run_unit endpoint prompt n m instr ts key rs =
     (case resolve (state rs) instr of
        Inl e \<Rightarrow> (Aborted e, rs)
      | Inr text \<Rightarrow>
          (let r = final (call_with_retry (retry_options m)
                            (endpoint (length (trace rs)) n text prompt));
               out = act ts r
           in (out,
               publish key r
                 (rs\<lparr>trace := trace rs @
                        [\<lparr>agent_name = n, resolved = text, answer = r, signal = out\<rparr>]\<rparr>))))"

subsection \<open>Composers\<close>

datatype loop_status = APPROVED | EXHAUSTED | FAILED run_error

record loop_result =
  status :: loop_status
  iterations :: nat
  after :: run_state

text \<open>
  Modelled from the spec: the Sequential, Parallel and Loop Composers and the
  Runner (the SDK's composite agents are missing).
  \<^item> Sequential: "executes its ordered list one at a time, in order, passing the
    same Shared Execution State forward"; "a failure in agent i aborts the
    remaining sequence"; an exit signal ends it as well and travels up to the
    enclosing loop.
  \<^item> Parallel: every member runs "against the same initial input", here the
    state at the entry of the group, and the writes are merged; the trace lists
    the members in the order of the list, one of the possible orders.
  \<^item> Loop: the state machine with states RUNNING(i), APPROVED and EXHAUSTED; the
    arguments of \<open>run_loop\<close> are the iterations left and the iterations begun.
    The loop "executes at most K iterations", so a \<^verbatim>\<open>max_iterations\<close> that is
    not positive leaves no iteration to run.
  \<^item> The searches and the agent tools a unit agent may use before its final
    answer stay inside the model call.
\<close>

fun run_agent :: "llm \<Rightarrow> string \<Rightarrow> agent \<Rightarrow> run_state \<Rightarrow> outcome \<times> run_state"
and run_seq :: "llm \<Rightarrow> string \<Rightarrow> agent list \<Rightarrow> run_state \<Rightarrow> outcome \<times> run_state"
and run_par ::
  "llm \<Rightarrow> string \<Rightarrow> agent list \<Rightarrow> (string \<rightharpoonup> string) \<Rightarrow> run_state \<Rightarrow> outcome \<times> run_state"
and run_loop :: "llm \<Rightarrow> string \<Rightarrow> agent list \<Rightarrow> nat \<Rightarrow> nat \<Rightarrow> run_state \<Rightarrow> loop_result" where
  "run_agent endpoint p (Agent n m d i ts k) rs = run_unit endpoint p n m i ts k rs"
| "run_agent endpoint p (SequentialAgent n xs) rs = run_seq endpoint p xs rs"
| "run_agent endpoint p (ParallelAgent n xs) rs = run_par endpoint p xs (state rs) rs"
| "run_agent endpoint p (LoopAgent n xs mi) rs =
     (let r = run_loop endpoint p xs (nat mi) 0 rs
      in (case status r of FAILED e \<Rightarrow> Aborted e | _ \<Rightarrow> Completed, after r))"
| "run_seq endpoint p [] rs = (Completed, rs)"
| "run_seq endpoint p (a # as) rs =
     (case run_agent endpoint p a rs of
        (Completed, rs') \<Rightarrow> run_seq endpoint p as rs'
      | (out, rs') \<Rightarrow> (out, rs'))"
| "run_par endpoint p [] snap acc = (Completed, acc)"
| "run_par endpoint p (a # as) snap acc =
     (case run_agent endpoint p a (acc\<lparr>state := snap\<rparr>) of
        (Aborted e, rs') \<Rightarrow> (Aborted e, rs'\<lparr>state := state acc ++ state rs'\<rparr>)
      | (out, rs') \<Rightarrow>
          (case run_par endpoint p as snap (rs'\<lparr>state := state acc ++ state rs'\<rparr>) of
             (Completed, rs'') \<Rightarrow> (out, rs'')
           | (out', rs'') \<Rightarrow> (out', rs'')))"
| "run_loop endpoint p xs 0 n rs = \<lparr>status = EXHAUSTED, iterations = n, after = rs\<rparr>"
| "run_loop endpoint p xs (Suc r) n rs =
     (case run_seq endpoint p xs rs of
        (Completed, rs') \<Rightarrow> run_loop endpoint p xs r (Suc n) rs'
      | (Escalated, rs') \<Rightarrow> \<lparr>status = APPROVED, iterations = Suc n, after = rs'\<rparr>
      | (Aborted e, rs') \<Rightarrow> \<lparr>status = FAILED e, iterations = Suc n, after = rs'\<rparr>)"

text \<open>
  Modelled from the spec: the Shared Execution State is "created empty at the
  start of a run" (the SDK's runner is missing).
\<close>

definition start :: run_state where
  "start = \<lparr>state = Map.empty, trace = [], response = None\<rparr>"

section \<open>Inputs used to exercise the model\<close>

text \<open>
  Every unit agent the two scripts construct: the root agent of Task1.py and the
  unit agents of the four pipelines of Task2.py, the loop pipeline built with
  any \<^verbatim>\<open>max_iterations\<close>.
\<close>

definition repository_agents :: "int \<Rightarrow> agent list" where
  "repository_agents max_iters =
     root_agent #
     concat (map unit_agents
       [build_research_summarizer_coordinator,
        build_sequential_blog_pipeline,
        build_parallel_research_system,
        build_loop_refinement_pipeline max_iters])"

text \<open>A unit agent, as opposed to a composer.\<close>

fun is_unit :: "agent \<Rightarrow> bool" where
  "is_unit (Agent n m d i ts k) = True"
| "is_unit (SequentialAgent n xs) = False"
| "is_unit (ParallelAgent n xs) = False"
| "is_unit (LoopAgent n xs mi) = False"

text \<open>
  Endpoints for single model calls: one that is overloaded twice and then
  answers, one that rejects the request.
\<close>

definition flaky_endpoint :: "nat \<Rightarrow> reply" where
  "flaky_endpoint i = (if i < 2 then Failed 429 else Text ''ok'')"

definition rejecting_endpoint :: "nat \<Rightarrow> reply" where
  "rejecting_endpoint i = Failed 404"

text \<open>
  Models for whole runs. \<open>echo\<close> answers every call with the name of the calling
  agent. \<open>obedient\<close> does what the instructions of the story pipeline demand:
  as the critic it approves every story, and as the refiner it then calls
  \<^verbatim>\<open>exit_loop\<close>.
\<close>

definition echo :: llm where
  "echo n nm instr p att = Text (''<'' @ nm @ ''>'')"

definition obedient :: llm where
  "obedient n nm instr p att =
     (if nm = ''CriticAgent'' then Text ''APPROVED''
      else if nm = ''RefinerAgent'' then CallFunction ''exit_loop''
      else Text ''A keeper found a map.'')"

text \<open>
  A list of calls in which no call raised the exit signal, and one whose last call
  did; the output keys configured on a list of agents.
\<close>

definition quiet :: "call list \<Rightarrow> bool" where
  "quiet cs = (\<forall>c \<in> set cs. signal c \<noteq> Escalated)"

definition escalated_at_end :: "call list \<Rightarrow> bool" where
  "escalated_at_end cs = (cs \<noteq> [] \<and> signal (last cs) = Escalated)"

definition keys_of :: "agent list \<Rightarrow> string set" where
  "keys_of xs = (\<Union>a \<in> set xs. set_option (output_key a))"


text \<open>
  The member lists of the Parallel Composers inside a composed agent, the agents
  held as \<^verbatim>\<open>AgentTool\<close>s included.
\<close>

fun parallel_groups :: "agent \<Rightarrow> agent list list"
and parallel_groups_tool :: "tool \<Rightarrow> agent list list" where
  "parallel_groups (Agent n m d i ts k) = concat (map parallel_groups_tool ts)"
| "parallel_groups (SequentialAgent n xs) = concat (map parallel_groups xs)"
| "parallel_groups (ParallelAgent n xs) = xs # concat (map parallel_groups xs)"
| "parallel_groups (LoopAgent n xs mi) = concat (map parallel_groups xs)"
| "parallel_groups_tool google_search = []"
| "parallel_groups_tool (AgentTool a) = parallel_groups a"
| "parallel_groups_tool (FunctionTool f) = []"

section \<open>Verified properties\<close>

subsection \<open>Unfolding the configuration\<close>

lemmas agent_defs =
  research_agent_def summarizer_agent_def build_research_summarizer_coordinator_def
  outline_agent_def writer_agent_def editor_agent_def build_sequential_blog_pipeline_def
  tech_researcher_def health_researcher_def finance_researcher_def aggregator_agent_def
  parallel_team_def build_parallel_research_system_def
  initial_writer_agent_def critic_agent_def refiner_agent_def loop_agent_def
  build_loop_refinement_pipeline_def root_agent_def

lemma repository_agent_names:
  "map name (repository_agents k) =
     [''helpful_assistant'', ''ResearchCoordinator'', ''ResearchAgent'', ''SummarizerAgent'',
      ''OutlineAgent'', ''WriterAgent'', ''EditorAgent'',
      ''TechResearcher'', ''HealthResearcher'', ''FinanceResearcher'', ''AggregatorAgent'',
      ''InitialWriterAgent'', ''CriticAgent'', ''RefinerAgent'']"
  by (simp add: repository_agents_def agent_defs)

lemma repository_retry_options:
  "\<forall>a \<in> set (repository_agents k). retry_options (model a) = retry_config"
  by (simp add: repository_agents_def agent_defs retry_config_task1_def retry_config_def
        gemini_model_default_def gemini_model_def)

subsection \<open>The retry loop\<close>

lemma retry_from_made: "Suc i \<le> made (retry_from cfg ep r i d ds) \<and> made (retry_from cfg ep r i d ds) \<le> Suc i + r"
proof (induction r arbitrary: i d ds)
  case 0
  show ?case by simp
next
  case (Suc r)
  show ?case
  proof (cases "ep i")
    case (Failed c)
    show ?thesis
    proof (cases "c \<in> set (http_status_codes cfg)")
      case True
      with Failed Suc [of "Suc i" "d * exp_base cfg" "ds @ [d]"] show ?thesis by simp
    next
      case False
      with Failed show ?thesis by simp
    qed
  qed simp_all
qed

lemma retry_from_final: "final (retry_from cfg ep r i d ds) = ep (made (retry_from cfg ep r i d ds) - 1)"
  by (induction r arbitrary: i d ds) (auto split: reply.splits)

lemma retry_from_slept:
  "slept (retry_from cfg ep r i d ds) =
     ds @ map (\<lambda>j. d * exp_base cfg ^ j) [0..<made (retry_from cfg ep r i d ds) - Suc i]"
proof (induction r arbitrary: i d ds)
  case 0
  show ?case by simp
next
  case (Suc r)
  show ?case
  proof (cases "ep i")
    case (Failed c)
    show ?thesis
    proof (cases "c \<in> set (http_status_codes cfg)")
      case True
      let ?res = "retry_from cfg ep r (Suc i) (d * exp_base cfg) (ds @ [d])"
      have m: "Suc (Suc i) \<le> made ?res" using retry_from_made by blast
      then obtain q where q: "made ?res - Suc i = Suc q" "made ?res - Suc (Suc i) = q"
        by (metis Suc_diff_le diff_Suc_Suc)
      have "map (\<lambda>j. d * exp_base cfg ^ j) [0..<Suc q] =
              d # map (\<lambda>j. d * exp_base cfg * exp_base cfg ^ j) [0..<q]"
        by (simp only: upt_conv_Cons [of 0 "Suc q"] map_Suc_upt [symmetric]) (simp add: mult.assoc)
      with True Failed Suc [of "Suc i" "d * exp_base cfg" "ds @ [d]"] q show ?thesis by simp
    next
      case False
      with Failed show ?thesis by simp
    qed
  qed simp_all
qed

lemma retry_from_retried:
  "i \<le> j \<Longrightarrow> Suc j < made (retry_from cfg ep r i d ds) \<Longrightarrow>
     \<exists>c \<in> set (http_status_codes cfg). ep j = Failed c"
proof (induction r arbitrary: i d ds)
  case 0
  then show ?case by simp
next
  case (Suc r)
  show ?case
  proof (cases "ep i")
    case (Failed c)
    show ?thesis
    proof (cases "c \<in> set (http_status_codes cfg)")
      case True
      show ?thesis
      proof (cases "j = i")
        case True
        with Failed \<open>c \<in> set (http_status_codes cfg)\<close> show ?thesis by simp
      next
        case False
        with Suc.prems have "Suc i \<le> j" by simp
        moreover from Suc.prems True Failed
        have "Suc j < made (retry_from cfg ep r (Suc i) (d * exp_base cfg) (ds @ [d]))" by simp
        ultimately show ?thesis by (rule Suc.IH)
      qed
    next
      case False
      with Failed Suc.prems show ?thesis by simp
    qed
  next
    case (Text t)
    with Suc.prems show ?thesis by simp
  next
    case (CallFunction f)
    with Suc.prems show ?thesis by simp
  qed
qed

lemma retry_from_stops:
  "made (retry_from cfg ep r i d ds) < Suc i + r \<Longrightarrow>
     \<not> (\<exists>c \<in> set (http_status_codes cfg). final (retry_from cfg ep r i d ds) = Failed c)"
  by (induction r arbitrary: i d ds) (auto split: reply.splits)

lemma powers_of_seven: "map (\<lambda>j. (7::int) ^ j) [0..<n] = take n [1, 7, 49, 343] " if "n \<le> 4"
proof -
  from that consider "n = 0" | "n = 1" | "n = 2" | "n = 3" | "n = 4" by linarith
  then show ?thesis by cases (simp_all add: upt_rec)
qed

subsection \<open>Retry policy\<close>

text \<open>
  C1. Every unit agent of the repository calls its model under the retry
  configuration \<open>retry_config\<close>. Under it a model call makes between one and five
  attempts; every attempt but the last failed with one of the status codes 429,
  500, 503, 504, and a call that stops before the fifth attempt did not end with
  such a failure; the delays slept between the attempts are the first entries of
  1, 7, 49, 343, so they start at 1, each is seven times the one before, and they
  increase strictly; a failure with any other status code on the first attempt
  is returned at once, with no retry and no delay.
\<close>

theorem retry_policy_of_model_calls:
  "(\<forall>a \<in> set (repository_agents k). retry_options (model a) = retry_config)
   \<and> (let res = call_with_retry retry_config ep in
        1 \<le> made res \<and> made res \<le> 5
        \<and> final res = ep (made res - 1)
        \<and> (\<forall>j. Suc j < made res \<longrightarrow> (\<exists>c \<in> {429, 500, 503, 504}. ep j = Failed c))
        \<and> (made res < 5 \<longrightarrow> (\<forall>c \<in> {429, 500, 503, 504}. final res \<noteq> Failed c))
        \<and> slept res = take (made res - 1) [1, 7, 49, 343]
        \<and> sorted_wrt (<) (slept res)
        \<and> (\<forall>j. Suc j < length (slept res) \<longrightarrow> slept res ! Suc j = slept res ! j * 7)
        \<and> (\<forall>c. ep 0 = Failed c \<and> c \<notin> {429, 500, 503, 504} \<longrightarrow>
              res = \<lparr>final = Failed c, made = 1, slept = []\<rparr>))"
proof -
  define res where "res = call_with_retry retry_config ep"
  have res: "res = retry_from retry_config ep 4 0 1 []"
    by (simp add: res_def call_with_retry_def retry_config_def)
  have codes: "set (http_status_codes retry_config) = {429, 500, 503, 504}"
    by (simp add: retry_config_def)
  have base: "exp_base retry_config = 7" by (simp add: retry_config_def)
  have bounds: "1 \<le> made res" "made res \<le> 5"
    using retry_from_made [of 0 retry_config ep 4 1 "[]"] by (simp_all add: res)
  have fin: "final res = ep (made res - 1)"
    unfolding res by (rule retry_from_final)
  have retried: "\<forall>j. Suc j < made res \<longrightarrow> (\<exists>c \<in> {429, 500, 503, 504}. ep j = Failed c)"
    using retry_from_retried [of 0 _ retry_config ep 4 1 "[]"] by (simp only: res codes) blast
  have stops: "made res < 5 \<longrightarrow> (\<forall>c \<in> {429, 500, 503, 504}. final res \<noteq> Failed c)"
    using retry_from_stops [of retry_config ep 4 0 1 "[]"] by (simp only: res codes) auto
  have sl: "slept res = take (made res - 1) [1, 7, 49, 343]"
    using retry_from_slept [of retry_config ep 4 0 1 "[]"] bounds powers_of_seven [of "made res - 1"]
    by (simp add: res base)
  from bounds consider "made res = 1" | "made res = 2" | "made res = 3" | "made res = 4" | "made res = 5"
    by linarith
  then have shape: "sorted_wrt (<) (slept res)
      \<and> (\<forall>j. Suc j < length (slept res) \<longrightarrow> slept res ! Suc j = slept res ! j * 7)"
    by cases (simp_all add: sl less_Suc_eq nth_Cons')
  have nonretry: "\<forall>c. ep 0 = Failed c \<and> c \<notin> {429, 500, 503, 504} \<longrightarrow>
              res = \<lparr>final = Failed c, made = 1, slept = []\<rparr>"
    by (simp add: res retry_config_def numeral_eq_Suc)
  show ?thesis
    unfolding Let_def res_def [symmetric]
    using repository_retry_options bounds fin retried stops sl shape nonretry by blast
qed


theorem retry_policy_of_model_calls_witness:
  "refiner_agent \<in> set (repository_agents 2)
   \<and> retry_options (model refiner_agent) = retry_config
   \<and> flaky_endpoint 0 = Failed 429 \<and> flaky_endpoint 1 = Failed 429
   \<and> made (call_with_retry retry_config flaky_endpoint) = 3
   \<and> slept (call_with_retry retry_config flaky_endpoint) = [1, 7]
   \<and> final (call_with_retry retry_config flaky_endpoint) = Text ''ok''
   \<and> rejecting_endpoint 0 = Failed 404 \<and> (404::int) \<notin> {429, 500, 503, 504}
   \<and> call_with_retry retry_config rejecting_endpoint = \<lparr>final = Failed 404, made = 1, slept = []\<rparr>"
  using retry_policy_of_model_calls [of 2 flaky_endpoint]
    retry_policy_of_model_calls [of 2 rejecting_endpoint]
  by (simp add: Let_def flaky_endpoint_def rejecting_endpoint_def call_with_retry_def
        retry_config_def retry_config_task1_def numeral_eq_Suc repository_agents_def
        agent_defs gemini_model_default_def gemini_model_def)

subsection \<open>Uniform retry configuration\<close>

text \<open>
  C8. The retry configuration is not specific to an agent: the configuration of
  Task1.py has the same attempt ceiling, backoff base, initial delay and status
  codes as the one of Task2.py, and the model of every unit agent constructed in
  the repository carries it.
\<close>

theorem retry_policy_uniform:
  "retry_config_task1 = retry_config
   \<and> (\<forall>a \<in> set (repository_agents k). retry_options (model a) = retry_config)
   \<and> length (repository_agents k) = 14"
  by (simp add: repository_agents_def agent_defs retry_config_task1_def retry_config_def
        gemini_model_default_def gemini_model_def)

theorem retry_policy_uniform_witness:
  "root_agent \<in> set (repository_agents 3) \<and> retry_options (model root_agent) = retry_config
   \<and> critic_agent \<in> set (repository_agents 3) \<and> retry_options (model critic_agent) = retry_config"
  using retry_policy_uniform [of 3]
  by (simp add: repository_agents_def agent_defs)

subsection \<open>Output keys\<close>

text \<open>
  C3, as the claim states it, fails: the story pipeline configures two agents
  with the same output key.
\<close>

theorem output_keys_not_unique_counterexample:
  "\<not> distinct (output_keys (build_loop_refinement_pipeline 2))"
  by (simp add: output_keys_def agent_defs)

text \<open>
  C3, amended. The output keys configured in the coordinator, in the blog
  pipeline and in the research system are pairwise different. In the story
  pipeline, for every \<^verbatim>\<open>max_iterations\<close>, the initial writer and the refiner are
  both configured with \<^verbatim>\<open>current_story\<close>, and the critic with \<^verbatim>\<open>critique\<close>.
\<close>

theorem output_keys_per_pipeline:
  "distinct (output_keys build_research_summarizer_coordinator)
   \<and> distinct (output_keys build_sequential_blog_pipeline)
   \<and> distinct (output_keys build_parallel_research_system)
   \<and> output_keys (build_loop_refinement_pipeline k) =
       [''current_story'', ''critique'', ''current_story'']
   \<and> output_key initial_writer_agent = output_key refiner_agent
   \<and> output_key critic_agent \<noteq> output_key refiner_agent"
  by (simp add: output_keys_def agent_defs)

subsection \<open>The exit function\<close>

text \<open>
  C9. \<^verbatim>\<open>exit_loop\<close> is a constant function: whatever the invocation, it returns
  the dictionary with exactly the two entries \<^verbatim>\<open>status\<close>, which is
  \<^verbatim>\<open>approved\<close>, and \<^verbatim>\<open>message\<close>, which is
  \<^verbatim>\<open>Story approved. Exiting refinement loop.\<close>
\<close>

theorem exit_loop_constant:
  "exit_loop u =
     [''status'' \<mapsto> ''approved'', ''message'' \<mapsto> ''Story approved. Exiting refinement loop.'']
   \<and> dom (exit_loop u) = {''status'', ''message''}
   \<and> exit_loop u ''status'' = Some ''approved''
   \<and> exit_loop u ''message'' = Some ''Story approved. Exiting refinement loop.''"
  by (auto simp: exit_loop_def)

subsection \<open>A missing API key\<close>

text \<open>
  C6, as the claim states it, fails: when the secret store is missing, the
  configuration step of either script returns normally, with no key in the
  environment; Task2.py does not even print a line.
\<close>

theorem missing_key_not_fatal_counterexample:
  "\<not> isl (task1_configure_api_key (Inl (Exception ''No module named kaggle_secrets'')) fresh_process)
   \<and> environ (projr (task1_configure_api_key (Inl (Exception ''No module named kaggle_secrets'')) fresh_process))
        ''GOOGLE_API_KEY'' = None
   \<and> import_kaggle_secrets (Inl (Exception ''No module named kaggle_secrets'')) = Inr None
   \<and> configure_api_key_from_kaggle None fresh_process = Inr fresh_process
   \<and> environ fresh_process ''GOOGLE_API_KEY'' = None
   \<and> stdout fresh_process = []"
  by (simp add: task1_configure_api_key_def import_kaggle_secrets_def
        configure_api_key_from_kaggle_def fresh_process_def print_line_def)

text \<open>
  C6, amended. A secret that cannot be obtained is handled inside the
  configuration step and is not fatal. In Task1.py a failing import or a failing
  lookup is caught and reported by one printed line that starts with the
  authentication error message and ends with the details. In Task2.py a failing
  import leaves no secret store, and then the step does nothing; a failing lookup
  is caught and reported by one printed line; an empty secret is skipped in
  silence. In each case the step returns normally and the environment is as it
  was before.
\<close>

theorem missing_key_handled_internally:
  "task1_configure_api_key (Inl (Exception msg)) w =
     Inr (print_line (key_sign @ '' Authentication Error: Please add 'GOOGLE_API_KEY' to your Kaggle secrets. Details: '' @ msg) w)
   \<and> (client ''GOOGLE_API_KEY'' = Inl (Exception msg) \<longrightarrow>
        task1_configure_api_key (Inr client) w =
          Inr (print_line (key_sign @ '' Authentication Error: Please add 'GOOGLE_API_KEY' to your Kaggle secrets. Details: '' @ msg) w))
   \<and> import_kaggle_secrets (Inl (Exception msg)) = Inr None
   \<and> configure_api_key_from_kaggle None w = Inr w
   \<and> (client ''GOOGLE_API_KEY'' = Inl (Exception msg) \<longrightarrow>
        configure_api_key_from_kaggle (Some client) w =
          Inr (print_line (''(Kaggle) couldn't read secret: '' @ msg) w))
   \<and> (client ''GOOGLE_API_KEY'' = Inr [] \<longrightarrow> configure_api_key_from_kaggle (Some client) w = Inr w)
   \<and> environ (print_line s w) = environ w
   \<and> stdout (print_line s w) = stdout w @ [s]"
  by (simp add: task1_configure_api_key_def import_kaggle_secrets_def
        configure_api_key_from_kaggle_def print_line_def)

theorem missing_key_handled_internally_witness:
  "failing_client ''GOOGLE_API_KEY'' = Inl (Exception ''secret not found'')
   \<and> task1_configure_api_key (Inr failing_client) fresh_process =
       Inr \<lparr>environ = Map.empty,
            stdout = [key_sign @ '' Authentication Error: Please add 'GOOGLE_API_KEY' to your Kaggle secrets. Details: secret not found'']\<rparr>
   \<and> configure_api_key_from_kaggle (Some failing_client) fresh_process =
       Inr \<lparr>environ = Map.empty, stdout = [''(Kaggle) couldn't read secret: secret not found'']\<rparr>"
  using missing_key_handled_internally [of "''secret not found''" fresh_process failing_client]
  by (simp add: failing_client_def fresh_process_def print_line_def)

subsection \<open>Runs of unit agents, sequences and loops\<close>

lemma default_retry_options: "retry_options gemini_model_default = retry_config"
  by (simp add: gemini_model_default_def gemini_model_def)

lemma is_unit_run:
  "is_unit a \<Longrightarrow>
   run_agent endpoint p a rs =
     run_unit endpoint p (name a) (model a) (instruction a) (tools a) (output_key a) rs"
  by (cases a) simp_all

lemma run_unit_trace:
  "run_unit endpoint p n m i ts k rs = (out, rs') \<Longrightarrow>
     (trace rs' = trace rs \<and> (\<exists>e. out = Aborted e)) \<or>
     (\<exists>c. trace rs' = trace rs @ [c] \<and> signal c = out \<and> agent_name c = n)"
  by (auto simp: run_unit_def Let_def publish_def split: sum.splits reply.splits option.splits)

lemma run_unit_dom:
  "run_unit endpoint p n m i ts k rs = (out, rs') \<Longrightarrow>
     dom (state rs') \<subseteq> dom (state rs) \<union> set_option k"
  by (auto simp: run_unit_def Let_def publish_def split: sum.splits reply.splits option.splits if_splits)

lemma act_exit_loop:
  "act [FunctionTool ''exit_loop''] (CallFunction ''exit_loop'') = Completed"
  by (simp add: act_def call_function_def is_exit_signal_def designated_exit_tools_def)

lemma run_loop_iterations: "iterations (run_loop endpoint p xs r n rs) \<le> n + r"
proof (induction r arbitrary: n rs)
  case 0
  show ?case by simp
next
  case (Suc r)
  obtain out rs' where seq: "run_seq endpoint p xs rs = (out, rs')" by (cases "run_seq endpoint p xs rs")
  show ?case
  proof (cases out)
    case Completed
    with seq Suc [of "Suc n" rs'] show ?thesis by simp
  qed (simp_all add: seq)
qed

lemma quiet_butlast_append:
  "quiet n1 \<Longrightarrow> quiet (butlast n2) \<Longrightarrow> quiet (butlast (n1 @ n2))"
  by (auto simp: quiet_def butlast_append dest: in_set_butlastD)

lemma escalated_at_end_append:
  "quiet n1 \<Longrightarrow> escalated_at_end (n1 @ n2) = escalated_at_end n2"
  by (cases "n2 = []") (auto simp: quiet_def escalated_at_end_def)

lemma quiet_from_butlast:
  "quiet (butlast cs) \<Longrightarrow> \<not> escalated_at_end cs \<Longrightarrow> quiet cs"
proof (cases cs rule: rev_cases)
  case Nil
  then show ?thesis by (simp add: quiet_def)
next
  case (snoc ys y)
  assume "quiet (butlast cs)" "\<not> escalated_at_end cs"
  with snoc show ?thesis by (auto simp: quiet_def escalated_at_end_def)
qed

lemma flat_seq:
  assumes "\<forall>a \<in> set xs. is_unit a" and "run_seq endpoint p xs rs = (out, rs')"
  shows "\<exists>new. trace rs' = trace rs @ new
           \<and> (\<forall>c \<in> set new. agent_name c \<in> name ` set xs)
           \<and> quiet (butlast new)
           \<and> (out = Escalated) = escalated_at_end new
           \<and> dom (state rs') \<subseteq> dom (state rs) \<union> keys_of xs"
  using assms
proof (induction xs arbitrary: rs)
  case Nil
  then show ?case by (simp add: quiet_def escalated_at_end_def)
next
  case (Cons a xs)
  obtain out1 rs1 where u: "run_unit endpoint p (name a) (model a) (instruction a) (tools a) (output_key a) rs = (out1, rs1)"
    by (cases "run_unit endpoint p (name a) (model a) (instruction a) (tools a) (output_key a) rs")
  from Cons.prems have ra: "run_agent endpoint p a rs = (out1, rs1)" by (simp add: is_unit_run u)
  from run_unit_trace [OF u] obtain n1 where n1: "trace rs1 = trace rs @ n1"
      "\<forall>c \<in> set n1. agent_name c = name a \<and> signal c = out1" "n1 = [] \<longrightarrow> (\<exists>e. out1 = Aborted e)"
      "length n1 \<le> 1"
    by auto
  have d1: "dom (state rs1) \<subseteq> dom (state rs) \<union> set_option (output_key a)"
    by (rule run_unit_dom [OF u])
  have ksub: "set_option (output_key a) \<subseteq> keys_of (a # xs)" "keys_of xs \<subseteq> keys_of (a # xs)"
    by (auto simp: keys_of_def)
  show ?case
  proof (cases "out1 = Completed")
    case True
    with Cons.prems ra have rest: "run_seq endpoint p xs rs1 = (out, rs')" by simp
    from Cons.prems have "\<forall>a \<in> set xs. is_unit a" by simp
    from Cons.IH [OF this rest] obtain n2 where n2: "trace rs' = trace rs1 @ n2"
        "\<forall>c \<in> set n2. agent_name c \<in> name ` set xs" "quiet (butlast n2)"
        "(out = Escalated) = escalated_at_end n2"
        "dom (state rs') \<subseteq> dom (state rs1) \<union> keys_of xs"
      by blast
    from True n1 have q1: "quiet n1" by (simp add: quiet_def)
    have "trace rs' = trace rs @ (n1 @ n2)" using n1 n2 by simp
    moreover have "\<forall>c \<in> set (n1 @ n2). agent_name c \<in> name ` set (a # xs)"
      using n1 n2 by auto
    moreover have "quiet (butlast (n1 @ n2))" using q1 n2 by (simp add: quiet_butlast_append)
    moreover have "(out = Escalated) = escalated_at_end (n1 @ n2)"
      using q1 n2 by (simp add: escalated_at_end_append)
    moreover have "dom (state rs') \<subseteq> dom (state rs) \<union> keys_of (a # xs)"
      using n2(5) d1 ksub by blast
    ultimately show ?thesis by blast
  next
    case False
    with Cons.prems ra have res: "out = out1" "rs' = rs1" by (cases out1; simp)+
    have "quiet (butlast n1)" using n1(4) by (cases n1) (simp_all add: quiet_def)
    moreover have "(out1 = Escalated) = escalated_at_end n1"
      using n1 by (cases n1) (auto simp: escalated_at_end_def)
    moreover have "\<forall>c \<in> set n1. agent_name c \<in> name ` set (a # xs)" using n1 by simp
    moreover have "dom (state rs1) \<subseteq> dom (state rs) \<union> keys_of (a # xs)" using d1 ksub by blast
    ultimately show ?thesis using n1(1) res by blast
  qed
qed

lemma flat_loop:
  assumes "\<forall>a \<in> set xs. is_unit a"
  shows "\<exists>new. trace (after (run_loop endpoint p xs r n rs)) = trace rs @ new
           \<and> (\<forall>c \<in> set new. agent_name c \<in> name ` set xs)
           \<and> quiet (butlast new)
           \<and> (status (run_loop endpoint p xs r n rs) = APPROVED) = escalated_at_end new
           \<and> dom (state (after (run_loop endpoint p xs r n rs))) \<subseteq> dom (state rs) \<union> keys_of xs"
proof (induction r arbitrary: n rs)
  case 0
  show ?case by (simp add: quiet_def escalated_at_end_def)
next
  case (Suc r)
  obtain out rs1 where seq: "run_seq endpoint p xs rs = (out, rs1)" by (cases "run_seq endpoint p xs rs")
  from flat_seq [OF assms seq] obtain n1 where n1: "trace rs1 = trace rs @ n1"
        "\<forall>c \<in> set n1. agent_name c \<in> name ` set xs" "quiet (butlast n1)"
        "(out = Escalated) = escalated_at_end n1"
        "dom (state rs1) \<subseteq> dom (state rs) \<union> keys_of xs"
    by blast
  show ?case
  proof (cases out)
    case Completed
    let ?res = "run_loop endpoint p xs r (Suc n) rs1"
    from Suc [of "Suc n" rs1] obtain n2 where n2: "trace (after ?res) = trace rs1 @ n2"
        "\<forall>c \<in> set n2. agent_name c \<in> name ` set xs" "quiet (butlast n2)"
        "(status ?res = APPROVED) = escalated_at_end n2"
        "dom (state (after ?res)) \<subseteq> dom (state rs1) \<union> keys_of xs"
      by blast
    from Completed n1 have q1: "quiet n1" by (simp add: quiet_from_butlast)
    have eq: "run_loop endpoint p xs (Suc r) n rs = ?res" using seq Completed by simp
    have "trace (after ?res) = trace rs @ (n1 @ n2)" using n1 n2 by simp
    moreover have "\<forall>c \<in> set (n1 @ n2). agent_name c \<in> name ` set xs" using n1 n2 by auto
    moreover have "quiet (butlast (n1 @ n2))" using q1 n2 by (simp add: quiet_butlast_append)
    moreover have "(status ?res = APPROVED) = escalated_at_end (n1 @ n2)"
      using q1 n2 by (simp add: escalated_at_end_append)
    moreover have "dom (state (after ?res)) \<subseteq> dom (state rs) \<union> keys_of xs"
      using n1(5) n2(5) by blast
    ultimately show ?thesis unfolding eq by blast
  next
    case Escalated
    with seq n1 show ?thesis by auto
  next
    case (Aborted e)
    with seq n1 show ?thesis by auto
  qed
qed

lemma first_attempt_text: "ep 0 = Text t \<Longrightarrow> final (call_with_retry retry_config ep) = Text t"
  by (simp add: call_with_retry_def retry_config_def numeral_eq_Suc)

lemma run_unit_resolved:
  "resolve (state rs) instr = Inr text \<Longrightarrow>
   final (call_with_retry (retry_options m) (endpoint (length (trace rs)) n text p)) = r \<Longrightarrow>
   run_unit endpoint p n m instr ts key rs =
     (act ts r,
      publish key r
        (rs\<lparr>trace := trace rs @ [\<lparr>agent_name = n, resolved = text, answer = r, signal = act ts r\<rparr>]\<rparr>))"
  by (simp add: run_unit_def Let_def)

lemma fill_total: "set (holes ps) \<subseteq> dom st \<Longrightarrow> fill st ps = Inr (projr (fill st ps))"
proof (induction ps)
  case Nil
  show ?case by simp
next
  case (Cons x ps)
  show ?case
  proof (cases x)
    case (Lit c)
    with Cons have "fill st ps = Inr (projr (fill st ps))" by simp
    then obtain t where "fill st ps = Inr t" ..
    with Lit show ?thesis by simp
  next
    case (Hole k)
    with Cons have "fill st ps = Inr (projr (fill st ps))" by simp
    then obtain t where t: "fill st ps = Inr t" ..
    from Hole Cons.prems obtain v where "st k = Some v" by auto
    with Hole t show ?thesis by simp
  qed
qed

lemma resolve_total:
  "set (placeholders i) \<subseteq> dom st \<Longrightarrow> resolve st i = Inr (projr (resolve st i))"
  unfolding resolve_def placeholders_def by (rule fill_total)

lemma unit_step:
  assumes "is_unit a" and "set (placeholders (instruction a)) \<subseteq> dom (state rs)"
  shows "run_agent endpoint p a rs =
     (act (tools a)
        (final (call_with_retry (retry_options (model a))
           (endpoint (length (trace rs)) (name a) (projr (resolve (state rs) (instruction a))) p))),
      publish (output_key a)
        (final (call_with_retry (retry_options (model a))
           (endpoint (length (trace rs)) (name a) (projr (resolve (state rs) (instruction a))) p)))
        (rs\<lparr>trace := trace rs @
           [\<lparr>agent_name = name a,
             resolved = projr (resolve (state rs) (instruction a)),
             answer = final (call_with_retry (retry_options (model a))
                (endpoint (length (trace rs)) (name a) (projr (resolve (state rs) (instruction a))) p)),
             signal = act (tools a)
               (final (call_with_retry (retry_options (model a))
                  (endpoint (length (trace rs)) (name a) (projr (resolve (state rs) (instruction a))) p)))\<rparr>]\<rparr>))"
proof -
  from resolve_total [OF assms(2)]
  have "resolve (state rs) (instruction a) = Inr (projr (resolve (state rs) (instruction a)))" .
  from run_unit_resolved [OF this refl] assms(1) show ?thesis by (simp add: is_unit_run)
qed

lemma story_agents:
  "is_unit initial_writer_agent" "is_unit critic_agent" "is_unit refiner_agent"
  "name initial_writer_agent = ''InitialWriterAgent''" "name critic_agent = ''CriticAgent''"
  "name refiner_agent = ''RefinerAgent''"
  "model initial_writer_agent = gemini_model_default" "model critic_agent = gemini_model_default"
  "model refiner_agent = gemini_model_default"
  "tools initial_writer_agent = []" "tools critic_agent = []"
  "tools refiner_agent = [FunctionTool ''exit_loop'']"
  "output_key initial_writer_agent = Some ''current_story''"
  "output_key critic_agent = Some ''critique''"
  "output_key refiner_agent = Some ''current_story''"
  by (simp_all add: initial_writer_agent_def critic_agent_def refiner_agent_def)

lemma story_placeholders:
  "placeholders (instruction initial_writer_agent) = []"
  "placeholders (instruction critic_agent) = [''current_story'']"
  "placeholders (instruction refiner_agent) = [''current_story'', ''critique'']"
  by (simp_all add: placeholders_def initial_writer_agent_def critic_agent_def refiner_agent_def)

lemma act_text: "act ts (Text t) = Completed"
  by (simp add: act_def)

lemma publish_text:
  "publish (Some k) (Text t) rs = rs\<lparr>state := (state rs)(k \<mapsto> t), response := Some t\<rparr>"
  by (simp add: publish_def)

lemma publish_call: "publish k (CallFunction f) rs = rs"
  by (simp add: publish_def)


lemma first_attempt_call:
  "ep 0 = CallFunction f \<Longrightarrow> final (call_with_retry retry_config ep) = CallFunction f"
  by (simp add: call_with_retry_def retry_config_def numeral_eq_Suc)

lemma obedient_answers:
  "final (call_with_retry retry_config (obedient n nm i p)) =
     (if nm = ''CriticAgent'' then Text ''APPROVED''
      else if nm = ''RefinerAgent'' then CallFunction ''exit_loop''
      else Text ''A keeper found a map.'')"
  by (simp add: first_attempt_text first_attempt_call obedient_def)

lemma echo_answers:
  "final (call_with_retry retry_config (echo n nm i p)) = Text (''<'' @ nm @ ''>'')"
  by (simp add: first_attempt_text echo_def)

lemma act_no_tools: "(act [] r = Completed) = (\<exists>t. r = Text t)"
  by (cases r) (simp_all add: act_def)

subsection \<open>The blog pipeline\<close>

lemma blog_agents:
  "is_unit outline_agent" "is_unit writer_agent" "is_unit editor_agent"
  "name outline_agent = ''OutlineAgent''" "name writer_agent = ''WriterAgent''"
  "name editor_agent = ''EditorAgent''"
  "model outline_agent = gemini_model_default" "model writer_agent = gemini_model_default"
  "model editor_agent = gemini_model_default"
  "tools outline_agent = []" "tools writer_agent = []" "tools editor_agent = []"
  "output_key outline_agent = Some ''blog_outline''"
  "output_key writer_agent = Some ''blog_draft''"
  "output_key editor_agent = Some ''final_blog''"
  by (simp_all add: outline_agent_def writer_agent_def editor_agent_def)

lemma blog_placeholders:
  "placeholders (instruction outline_agent) = []"
  "placeholders (instruction writer_agent) = [''blog_outline'']"
  "placeholders (instruction editor_agent) = [''blog_draft'']"
  by (simp_all add: placeholders_def outline_agent_def writer_agent_def editor_agent_def)

lemma resolve_outline: "resolve st (instruction outline_agent) = Inr (instruction outline_agent)"
  by (simp add: resolve_def outline_agent_def)

lemma resolve_writer:
  "st ''blog_outline'' = Some outline \<Longrightarrow>
   resolve st (instruction writer_agent) =
     Inr (''Following this outline strictly: '' @ outline @
          ''\<newline>Write a brief, 200 to 300-word blog post with an engaging and informative tone.'')"
  by (simp add: resolve_def writer_agent_def)

lemma resolve_editor:
  "st ''blog_draft'' = Some draft \<Longrightarrow>
   resolve st (instruction editor_agent) =
     Inr (''Edit this draft: '' @ draft @
          ''\<newline>Your task is to polish the text by fixing any grammatical errors, improving the flow and sentence structure, and enhancing overall clarity.'')"
  by (simp add: resolve_def editor_agent_def)

lemma blog_run:
  assumes o: "final (call_with_retry retry_config
                (endpoint 0 ''OutlineAgent'' (instruction outline_agent) p)) = Text outline"
    and w: "final (call_with_retry retry_config
                (endpoint 1 ''WriterAgent''
                   (''Following this outline strictly: '' @ outline @
                    ''\<newline>Write a brief, 200 to 300-word blog post with an engaging and informative tone.'') p)) = Text draft"
    and e: "final (call_with_retry retry_config
                (endpoint 2 ''EditorAgent''
                   (''Edit this draft: '' @ draft @
                    ''\<newline>Your task is to polish the text by fixing any grammatical errors, improving the flow and sentence structure, and enhancing overall clarity.'') p)) = Text blog"
  shows "run_agent endpoint p build_sequential_blog_pipeline start =
     (Completed,
      \<lparr>state = [''blog_outline'' \<mapsto> outline, ''blog_draft'' \<mapsto> draft, ''final_blog'' \<mapsto> blog],
       trace =
         [\<lparr>agent_name = ''OutlineAgent'', resolved = instruction outline_agent,
           answer = Text outline, signal = Completed\<rparr>,
          \<lparr>agent_name = ''WriterAgent'',
           resolved = ''Following this outline strictly: '' @ outline @
                    ''\<newline>Write a brief, 200 to 300-word blog post with an engaging and informative tone.'',
           answer = Text draft, signal = Completed\<rparr>,
          \<lparr>agent_name = ''EditorAgent'',
           resolved = ''Edit this draft: '' @ draft @
                    ''\<newline>Your task is to polish the text by fixing any grammatical errors, improving the flow and sentence structure, and enhancing overall clarity.'',
           answer = Text blog, signal = Completed\<rparr>],
       response = Some blog\<rparr>)"
  using o w e
  by (simp add: build_sequential_blog_pipeline_def unit_step blog_agents blog_placeholders
        resolve_outline resolve_writer resolve_editor start_def default_retry_options
        act_text publish_text numeral_2_eq_2)

lemma blog_completed_run:
  assumes compl: "fst (run_agent endpoint p build_sequential_blog_pipeline start) = Completed"
  shows "\<exists>outline draft blog.
      final (call_with_retry retry_config
        (endpoint 0 ''OutlineAgent'' (instruction outline_agent) p)) = Text outline
    \<and> final (call_with_retry retry_config
        (endpoint 1 ''WriterAgent''
           (''Following this outline strictly: '' @ outline @
            ''\<newline>Write a brief, 200 to 300-word blog post with an engaging and informative tone.'') p)) = Text draft
    \<and> final (call_with_retry retry_config
        (endpoint 2 ''EditorAgent''
           (''Edit this draft: '' @ draft @
            ''\<newline>Your task is to polish the text by fixing any grammatical errors, improving the flow and sentence structure, and enhancing overall clarity.'') p)) = Text blog
    \<and> response (snd (run_agent endpoint p build_sequential_blog_pipeline start)) = Some blog"
proof -
  let ?r0 = "final (call_with_retry retry_config
        (endpoint 0 ''OutlineAgent'' (instruction outline_agent) p))"
  have "act [] ?r0 = Completed"
    using compl
    by (simp add: build_sequential_blog_pipeline_def unit_step blog_agents blog_placeholders
          resolve_outline start_def default_retry_options split: outcome.splits prod.splits)
  then obtain outline where r0: "?r0 = Text outline" by (auto simp: act_no_tools)
  let ?r1 = "final (call_with_retry retry_config
        (endpoint 1 ''WriterAgent''
           (''Following this outline strictly: '' @ outline @
            ''\<newline>Write a brief, 200 to 300-word blog post with an engaging and informative tone.'') p))"
  have "act [] ?r1 = Completed"
    using compl r0
    by (simp add: build_sequential_blog_pipeline_def unit_step blog_agents blog_placeholders
          resolve_outline resolve_writer start_def default_retry_options act_text publish_text
          split: outcome.splits prod.splits)
  then obtain draft where r1: "?r1 = Text draft" by (auto simp: act_no_tools)
  let ?r2 = "final (call_with_retry retry_config
        (endpoint 2 ''EditorAgent''
           (''Edit this draft: '' @ draft @
            ''\<newline>Your task is to polish the text by fixing any grammatical errors, improving the flow and sentence structure, and enhancing overall clarity.'') p))"
  have "act [] ?r2 = Completed"
    using compl r0 r1
    by (simp add: build_sequential_blog_pipeline_def unit_step blog_agents blog_placeholders
          resolve_outline resolve_writer resolve_editor start_def default_retry_options
          act_text publish_text numeral_2_eq_2 split: outcome.splits prod.splits)
  then obtain blog where r2: "?r2 = Text blog" by (auto simp: act_no_tools)
  have "response (snd (run_agent endpoint p build_sequential_blog_pipeline start)) = Some blog"
    using r0 r1 r2
      blog_run [where endpoint = endpoint and p = p and outline = outline and draft = draft
        and blog = blog]
    by simp
  with r0 r1 r2 show ?thesis by (intro exI conjI)
qed

text \<open>
  C4. The blog pipeline is the sequence of OutlineAgent, WriterAgent and
  EditorAgent, in this order. The only placeholder of the editor's instruction
  is \<^verbatim>\<open>{blog_draft}\<close>, the key the writer writes to, and resolving the
  instruction puts the writer's output there as it is. In a run where the three
  agents answer with the texts \<open>outline\<close>, \<open>draft\<close> and \<open>blog\<close>, the writer is
  asked with the outline in its instruction, the editor with the draft, and the
  final result is \<open>blog\<close>, the editor's answer; every run that completes is such
  a run.
\<close>

theorem blog_pipeline_order_and_handoff:
  "build_sequential_blog_pipeline =
     SequentialAgent ''BlogPipeline'' [outline_agent, writer_agent, editor_agent]
   \<and> map name (sub_agents build_sequential_blog_pipeline) =
       [''OutlineAgent'', ''WriterAgent'', ''EditorAgent'']
   \<and> output_key writer_agent = Some ''blog_draft''
   \<and> placeholders (instruction editor_agent) = [''blog_draft'']
   \<and> (\<forall>st. st ''blog_draft'' = Some draft \<longrightarrow>
         resolve st (instruction editor_agent) =
           Inr (''Edit this draft: '' @ draft @
                ''\<newline>Your task is to polish the text by fixing any grammatical errors, improving the flow and sentence structure, and enhancing overall clarity.''))
   \<and> (final (call_with_retry retry_config
           (endpoint 0 ''OutlineAgent'' (instruction outline_agent) p)) = Text outline
        \<and> final (call_with_retry retry_config
           (endpoint 1 ''WriterAgent''
              (''Following this outline strictly: '' @ outline @
               ''\<newline>Write a brief, 200 to 300-word blog post with an engaging and informative tone.'') p)) = Text draft
        \<and> final (call_with_retry retry_config
           (endpoint 2 ''EditorAgent''
              (''Edit this draft: '' @ draft @
               ''\<newline>Your task is to polish the text by fixing any grammatical errors, improving the flow and sentence structure, and enhancing overall clarity.'') p)) = Text blog
        \<longrightarrow>
        run_agent endpoint p build_sequential_blog_pipeline start =
          (Completed,
           \<lparr>state = [''blog_outline'' \<mapsto> outline, ''blog_draft'' \<mapsto> draft, ''final_blog'' \<mapsto> blog],
            trace =
              [\<lparr>agent_name = ''OutlineAgent'', resolved = instruction outline_agent,
                answer = Text outline, signal = Completed\<rparr>,
               \<lparr>agent_name = ''WriterAgent'',
                resolved = ''Following this outline strictly: '' @ outline @
                    ''\<newline>Write a brief, 200 to 300-word blog post with an engaging and informative tone.'',
                answer = Text draft, signal = Completed\<rparr>,
               \<lparr>agent_name = ''EditorAgent'',
                resolved = ''Edit this draft: '' @ draft @
                    ''\<newline>Your task is to polish the text by fixing any grammatical errors, improving the flow and sentence structure, and enhancing overall clarity.'',
                answer = Text blog, signal = Completed\<rparr>],
            response = Some blog\<rparr>))
   \<and> (fst (run_agent endpoint p build_sequential_blog_pipeline start) = Completed \<longrightarrow>
        (\<exists>o' d' b'.
           final (call_with_retry retry_config
             (endpoint 0 ''OutlineAgent'' (instruction outline_agent) p)) = Text o'
         \<and> final (call_with_retry retry_config
             (endpoint 1 ''WriterAgent''
                (''Following this outline strictly: '' @ o' @
                 ''\<newline>Write a brief, 200 to 300-word blog post with an engaging and informative tone.'') p)) = Text d'
         \<and> final (call_with_retry retry_config
             (endpoint 2 ''EditorAgent''
                (''Edit this draft: '' @ d' @
                 ''\<newline>Your task is to polish the text by fixing any grammatical errors, improving the flow and sentence structure, and enhancing overall clarity.'') p)) = Text b'
         \<and> response (snd (run_agent endpoint p build_sequential_blog_pipeline start)) = Some b'))"
proof (intro conjI allI impI)
  show "build_sequential_blog_pipeline =
     SequentialAgent ''BlogPipeline'' [outline_agent, writer_agent, editor_agent]"
    by (rule build_sequential_blog_pipeline_def)
  show "map name (sub_agents build_sequential_blog_pipeline) =
       [''OutlineAgent'', ''WriterAgent'', ''EditorAgent'']"
    by (simp add: build_sequential_blog_pipeline_def blog_agents)
  show "output_key writer_agent = Some ''blog_draft''"
    by (rule blog_agents)
  show "placeholders (instruction editor_agent) = [''blog_draft'']"
    by (rule blog_placeholders)
next
  fix st :: "string \<rightharpoonup> string"
  assume "st ''blog_draft'' = Some draft"
  then show "resolve st (instruction editor_agent) =
           Inr (''Edit this draft: '' @ draft @
                ''\<newline>Your task is to polish the text by fixing any grammatical errors, improving the flow and sentence structure, and enhancing overall clarity.'')"
    by (rule resolve_editor)
next
  assume "final (call_with_retry retry_config
           (endpoint 0 ''OutlineAgent'' (instruction outline_agent) p)) = Text outline
        \<and> final (call_with_retry retry_config
           (endpoint 1 ''WriterAgent''
              (''Following this outline strictly: '' @ outline @
               ''\<newline>Write a brief, 200 to 300-word blog post with an engaging and informative tone.'') p)) = Text draft
        \<and> final (call_with_retry retry_config
           (endpoint 2 ''EditorAgent''
              (''Edit this draft: '' @ draft @
               ''\<newline>Your task is to polish the text by fixing any grammatical errors, improving the flow and sentence structure, and enhancing overall clarity.'') p)) = Text blog"
  then show "run_agent endpoint p build_sequential_blog_pipeline start =
          (Completed,
           \<lparr>state = [''blog_outline'' \<mapsto> outline, ''blog_draft'' \<mapsto> draft, ''final_blog'' \<mapsto> blog],
            trace =
              [\<lparr>agent_name = ''OutlineAgent'', resolved = instruction outline_agent,
                answer = Text outline, signal = Completed\<rparr>,
               \<lparr>agent_name = ''WriterAgent'',
                resolved = ''Following this outline strictly: '' @ outline @
                    ''\<newline>Write a brief, 200 to 300-word blog post with an engaging and informative tone.'',
                answer = Text draft, signal = Completed\<rparr>,
               \<lparr>agent_name = ''EditorAgent'',
                resolved = ''Edit this draft: '' @ draft @
                    ''\<newline>Your task is to polish the text by fixing any grammatical errors, improving the flow and sentence structure, and enhancing overall clarity.'',
                answer = Text blog, signal = Completed\<rparr>],
            response = Some blog\<rparr>)"
    by (elim conjE) (rule blog_run)
next
  assume "fst (run_agent endpoint p build_sequential_blog_pipeline start) = Completed"
  then show "\<exists>o' d' b'.
           final (call_with_retry retry_config
             (endpoint 0 ''OutlineAgent'' (instruction outline_agent) p)) = Text o'
         \<and> final (call_with_retry retry_config
             (endpoint 1 ''WriterAgent''
                (''Following this outline strictly: '' @ o' @
                 ''\<newline>Write a brief, 200 to 300-word blog post with an engaging and informative tone.'') p)) = Text d'
         \<and> final (call_with_retry retry_config
             (endpoint 2 ''EditorAgent''
                (''Edit this draft: '' @ d' @
                 ''\<newline>Your task is to polish the text by fixing any grammatical errors, improving the flow and sentence structure, and enhancing overall clarity.'') p)) = Text b'
         \<and> response (snd (run_agent endpoint p build_sequential_blog_pipeline start)) = Some b'"
    by (rule blog_completed_run)
qed

theorem blog_pipeline_order_and_handoff_witness:
  "final (call_with_retry retry_config
      (echo 0 ''OutlineAgent'' (instruction outline_agent) ''multi-agent systems'')) = Text ''<OutlineAgent>''
   \<and> response (snd (run_agent echo ''multi-agent systems'' build_sequential_blog_pipeline start)) =
       Some ''<EditorAgent>''
   \<and> resolved (trace (snd (run_agent echo ''multi-agent systems'' build_sequential_blog_pipeline start)) ! 2) =
       ''Edit this draft: <WriterAgent>\<newline>Your task is to polish the text by fixing any grammatical errors, improving the flow and sentence structure, and enhancing overall clarity.''
   \<and> resolve [''blog_draft'' \<mapsto> ''<WriterAgent>''] (instruction editor_agent) =
       Inr ''Edit this draft: <WriterAgent>\<newline>Your task is to polish the text by fixing any grammatical errors, improving the flow and sentence structure, and enhancing overall clarity.''"
  using blog_pipeline_order_and_handoff
    [of "''<WriterAgent>''" echo "''multi-agent systems''" "''<OutlineAgent>''" "''<EditorAgent>''"]
  by (simp add: echo_answers)

subsection \<open>The research system\<close>

lemma research_agents:
  "is_unit tech_researcher" "is_unit health_researcher" "is_unit finance_researcher"
  "is_unit aggregator_agent"
  "name tech_researcher = ''TechResearcher''" "name health_researcher = ''HealthResearcher''"
  "name finance_researcher = ''FinanceResearcher''" "name aggregator_agent = ''AggregatorAgent''"
  "model tech_researcher = gemini_model_default" "model health_researcher = gemini_model_default"
  "model finance_researcher = gemini_model_default" "model aggregator_agent = gemini_model_default"
  "tools tech_researcher = [google_search]" "tools health_researcher = [google_search]"
  "tools finance_researcher = [google_search]" "tools aggregator_agent = []"
  "output_key tech_researcher = Some ''tech_research''"
  "output_key health_researcher = Some ''health_research''"
  "output_key finance_researcher = Some ''finance_research''"
  "output_key aggregator_agent = Some ''executive_summary''"
  by (simp_all add: tech_researcher_def health_researcher_def finance_researcher_def
        aggregator_agent_def)

lemma researchers_no_brace:
  "CHR ''{'' \<notin> set (instruction tech_researcher)"
  "CHR ''{'' \<notin> set (instruction health_researcher)"
  "CHR ''{'' \<notin> set (instruction finance_researcher)"
  by (simp_all add: tech_researcher_def health_researcher_def finance_researcher_def)

lemma no_brace_pieces: "CHR ''{'' \<notin> set t \<Longrightarrow> template_pieces None t = map Lit t"
  by (induction t) auto

lemma fill_literals: "fill st (map Lit t) = Inr t"
  by (induction t) auto

lemma no_brace_resolve: "CHR ''{'' \<notin> set t \<Longrightarrow> resolve st t = Inr t"
  by (simp add: resolve_def no_brace_pieces fill_literals)

lemma no_brace_placeholders: "CHR ''{'' \<notin> set t \<Longrightarrow> placeholders t = []"
proof -
  have "holes (map Lit t) = []" by (induction t) auto
  then show "CHR ''{'' \<notin> set t \<Longrightarrow> placeholders t = []"
    by (simp add: placeholders_def no_brace_pieces)
qed

lemma research_placeholders:
  "placeholders (instruction tech_researcher) = []"
  "placeholders (instruction health_researcher) = []"
  "placeholders (instruction finance_researcher) = []"
  "placeholders (instruction aggregator_agent) =
     [''tech_research'', ''health_research'', ''finance_research'']"
  by (simp_all add: no_brace_placeholders researchers_no_brace)
     (simp add: placeholders_def aggregator_agent_def)

lemma resolve_aggregator:
  "st ''tech_research'' = Some t \<Longrightarrow> st ''health_research'' = Some h \<Longrightarrow>
   st ''finance_research'' = Some f \<Longrightarrow>
   resolve st (instruction aggregator_agent) =
     Inr (''Combine these three research findings into a single executive summary:\<newline>\<newline>'' @
          ''**Technology Trends:**\<newline>'' @ t @ ''\<newline>\<newline>**Health Breakthroughs:**\<newline>'' @ h @
          ''\<newline>\<newline>**Finance Innovations:**\<newline>'' @ f @ ''\<newline>\<newline>'' @
          ''Your summary should highlight common themes, surprising connections, and the most important key takeaways from all three reports. The final summary should be around 200 words.'')"
  by (simp add: resolve_def aggregator_agent_def)

lemma research_run:
  assumes t: "final (call_with_retry retry_config
                (endpoint 0 ''TechResearcher'' (instruction tech_researcher) p)) = Text t"
    and h: "final (call_with_retry retry_config
                (endpoint 1 ''HealthResearcher'' (instruction health_researcher) p)) = Text h"
    and f: "final (call_with_retry retry_config
                (endpoint 2 ''FinanceResearcher'' (instruction finance_researcher) p)) = Text f"
    and s: "final (call_with_retry retry_config
                (endpoint 3 ''AggregatorAgent''
                  (''Combine these three research findings into a single executive summary:\<newline>\<newline>'' @
          ''**Technology Trends:**\<newline>'' @ t @ ''\<newline>\<newline>**Health Breakthroughs:**\<newline>'' @ h @
          ''\<newline>\<newline>**Finance Innovations:**\<newline>'' @ f @ ''\<newline>\<newline>'' @
          ''Your summary should highlight common themes, surprising connections, and the most important key takeaways from all three reports. The final summary should be around 200 words.'') p)) = Text s"
  shows "run_agent endpoint p build_parallel_research_system start =
     (Completed,
      \<lparr>state = [''tech_research'' \<mapsto> t, ''health_research'' \<mapsto> h,
                ''finance_research'' \<mapsto> f, ''executive_summary'' \<mapsto> s],
       trace =
         [\<lparr>agent_name = ''TechResearcher'', resolved = instruction tech_researcher,
           answer = Text t, signal = Completed\<rparr>,
          \<lparr>agent_name = ''HealthResearcher'', resolved = instruction health_researcher,
           answer = Text h, signal = Completed\<rparr>,
          \<lparr>agent_name = ''FinanceResearcher'', resolved = instruction finance_researcher,
           answer = Text f, signal = Completed\<rparr>,
          \<lparr>agent_name = ''AggregatorAgent'',
           resolved = ''Combine these three research findings into a single executive summary:\<newline>\<newline>'' @
          ''**Technology Trends:**\<newline>'' @ t @ ''\<newline>\<newline>**Health Breakthroughs:**\<newline>'' @ h @
          ''\<newline>\<newline>**Finance Innovations:**\<newline>'' @ f @ ''\<newline>\<newline>'' @
          ''Your summary should highlight common themes, surprising connections, and the most important key takeaways from all three reports. The final summary should be around 200 words.'',
           answer = Text s, signal = Completed\<rparr>],
       response = Some s\<rparr>)"
  using t h f s
  by (simp add: build_parallel_research_system_def parallel_team_def unit_step research_agents
        research_placeholders no_brace_resolve researchers_no_brace resolve_aggregator
        start_def default_retry_options act_text publish_text numeral_2_eq_2 numeral_3_eq_3)


text \<open>
  C7. The research system is a Sequential Composer whose first member is the
  parallel team and whose second member is the aggregator, so the aggregator runs
  after the team. The placeholders of the aggregator's instruction are exactly
  the output keys of the three team members, \<^verbatim>\<open>tech_research\<close>,
  \<^verbatim>\<open>health_research\<close> and \<^verbatim>\<open>finance_research\<close>, and its own output key is
  \<^verbatim>\<open>executive_summary\<close>. In a run where the four agents answer with texts, the
  aggregator is asked with the three reports inside its instruction, and its
  answer is the final result, stored under \<^verbatim>\<open>executive_summary\<close>.
\<close>

theorem aggregator_reads_parallel_outputs:
  "build_parallel_research_system =
     SequentialAgent ''ResearchSystem''
       [ParallelAgent ''ParallelResearchTeam''
          [tech_researcher, health_researcher, finance_researcher],
        aggregator_agent]
   \<and> output_keys parallel_team = [''tech_research'', ''health_research'', ''finance_research'']
   \<and> placeholders (instruction aggregator_agent) = output_keys parallel_team
   \<and> output_key aggregator_agent = Some ''executive_summary''
   \<and> (final (call_with_retry retry_config
           (endpoint 0 ''TechResearcher'' (instruction tech_researcher) p)) = Text t
        \<and> final (call_with_retry retry_config
           (endpoint 1 ''HealthResearcher'' (instruction health_researcher) p)) = Text h
        \<and> final (call_with_retry retry_config
           (endpoint 2 ''FinanceResearcher'' (instruction finance_researcher) p)) = Text f
        \<and> final (call_with_retry retry_config
           (endpoint 3 ''AggregatorAgent''
              (''Combine these three research findings into a single executive summary:\<newline>\<newline>'' @
               ''**Technology Trends:**\<newline>'' @ t @ ''\<newline>\<newline>**Health Breakthroughs:**\<newline>'' @ h @
               ''\<newline>\<newline>**Finance Innovations:**\<newline>'' @ f @ ''\<newline>\<newline>'' @
               ''Your summary should highlight common themes, surprising connections, and the most important key takeaways from all three reports. The final summary should be around 200 words.'') p)) = Text s
        \<longrightarrow>
        run_agent endpoint p build_parallel_research_system start =
          (Completed,
           \<lparr>state = [''tech_research'' \<mapsto> t, ''health_research'' \<mapsto> h,
                     ''finance_research'' \<mapsto> f, ''executive_summary'' \<mapsto> s],
            trace =
              [\<lparr>agent_name = ''TechResearcher'', resolved = instruction tech_researcher,
                answer = Text t, signal = Completed\<rparr>,
               \<lparr>agent_name = ''HealthResearcher'', resolved = instruction health_researcher,
                answer = Text h, signal = Completed\<rparr>,
               \<lparr>agent_name = ''FinanceResearcher'', resolved = instruction finance_researcher,
                answer = Text f, signal = Completed\<rparr>,
               \<lparr>agent_name = ''AggregatorAgent'',
                resolved = ''Combine these three research findings into a single executive summary:\<newline>\<newline>'' @
                  ''**Technology Trends:**\<newline>'' @ t @ ''\<newline>\<newline>**Health Breakthroughs:**\<newline>'' @ h @
                  ''\<newline>\<newline>**Finance Innovations:**\<newline>'' @ f @ ''\<newline>\<newline>'' @
                  ''Your summary should highlight common themes, surprising connections, and the most important key takeaways from all three reports. The final summary should be around 200 words.'',
                answer = Text s, signal = Completed\<rparr>],
            response = Some s\<rparr>))"
proof (intro conjI impI)
  show "build_parallel_research_system =
     SequentialAgent ''ResearchSystem''
       [ParallelAgent ''ParallelResearchTeam''
          [tech_researcher, health_researcher, finance_researcher],
        aggregator_agent]"
    by (simp add: build_parallel_research_system_def parallel_team_def)
  show keys: "output_keys parallel_team =
      [''tech_research'', ''health_research'', ''finance_research'']"
    by (simp add: output_keys_def parallel_team_def tech_researcher_def health_researcher_def
          finance_researcher_def)
  show "placeholders (instruction aggregator_agent) = output_keys parallel_team"
    by (simp only: keys research_placeholders)
  show "output_key aggregator_agent = Some ''executive_summary''"
    by (rule research_agents)
next
  assume "final (call_with_retry retry_config
           (endpoint 0 ''TechResearcher'' (instruction tech_researcher) p)) = Text t
        \<and> final (call_with_retry retry_config
           (endpoint 1 ''HealthResearcher'' (instruction health_researcher) p)) = Text h
        \<and> final (call_with_retry retry_config
           (endpoint 2 ''FinanceResearcher'' (instruction finance_researcher) p)) = Text f
        \<and> final (call_with_retry retry_config
           (endpoint 3 ''AggregatorAgent''
              (''Combine these three research findings into a single executive summary:\<newline>\<newline>'' @
               ''**Technology Trends:**\<newline>'' @ t @ ''\<newline>\<newline>**Health Breakthroughs:**\<newline>'' @ h @
               ''\<newline>\<newline>**Finance Innovations:**\<newline>'' @ f @ ''\<newline>\<newline>'' @
               ''Your summary should highlight common themes, surprising connections, and the most important key takeaways from all three reports. The final summary should be around 200 words.'') p)) = Text s"
  then show "run_agent endpoint p build_parallel_research_system start =
          (Completed,
           \<lparr>state = [''tech_research'' \<mapsto> t, ''health_research'' \<mapsto> h,
                     ''finance_research'' \<mapsto> f, ''executive_summary'' \<mapsto> s],
            trace =
              [\<lparr>agent_name = ''TechResearcher'', resolved = instruction tech_researcher,
                answer = Text t, signal = Completed\<rparr>,
               \<lparr>agent_name = ''HealthResearcher'', resolved = instruction health_researcher,
                answer = Text h, signal = Completed\<rparr>,
               \<lparr>agent_name = ''FinanceResearcher'', resolved = instruction finance_researcher,
                answer = Text f, signal = Completed\<rparr>,
               \<lparr>agent_name = ''AggregatorAgent'',
                resolved = ''Combine these three research findings into a single executive summary:\<newline>\<newline>'' @
                  ''**Technology Trends:**\<newline>'' @ t @ ''\<newline>\<newline>**Health Breakthroughs:**\<newline>'' @ h @
                  ''\<newline>\<newline>**Finance Innovations:**\<newline>'' @ f @ ''\<newline>\<newline>'' @
                  ''Your summary should highlight common themes, surprising connections, and the most important key takeaways from all three reports. The final summary should be around 200 words.'',
                answer = Text s, signal = Completed\<rparr>],
            response = Some s\<rparr>)"
    by (elim conjE) (rule research_run)
qed

theorem aggregator_reads_parallel_outputs_witness:
  "final (call_with_retry retry_config
      (echo 0 ''TechResearcher'' (instruction tech_researcher) ''daily briefing'')) = Text ''<TechResearcher>''
   \<and> map agent_name (trace (snd (run_agent echo ''daily briefing'' build_parallel_research_system start))) =
       [''TechResearcher'', ''HealthResearcher'', ''FinanceResearcher'', ''AggregatorAgent'']
   \<and> state (snd (run_agent echo ''daily briefing'' build_parallel_research_system start)) ''executive_summary'' =
       Some ''<AggregatorAgent>''
   \<and> resolved (last (trace (snd (run_agent echo ''daily briefing'' build_parallel_research_system start)))) =
       ''Combine these three research findings into a single executive summary:\<newline>\<newline>'' @
       ''**Technology Trends:**\<newline><TechResearcher>\<newline>\<newline>**Health Breakthroughs:**\<newline><HealthResearcher>'' @
       ''\<newline>\<newline>**Finance Innovations:**\<newline><FinanceResearcher>\<newline>\<newline>'' @
       ''Your summary should highlight common themes, surprising connections, and the most important key takeaways from all three reports. The final summary should be around 200 words.''"
  using aggregator_reads_parallel_outputs
    [of echo "''daily briefing''" "''<TechResearcher>''" "''<HealthResearcher>''"
       "''<FinanceResearcher>''" "''<AggregatorAgent>''"]
  by (simp add: echo_answers)

text \<open>
  C5. The only Parallel Composer of the repository is the research team of three
  members. Their output keys are pairwise different, and no member can see what
  another one wrote: no instruction of a member contains an opening brace, so
  none has a placeholder, and whatever the shared state holds, the instruction a
  member is asked with is its instruction as written.
\<close>

theorem parallel_members_independent:
  "concat (map parallel_groups
       [root_agent, build_research_summarizer_coordinator, build_sequential_blog_pipeline,
        build_parallel_research_system, build_loop_refinement_pipeline k]) =
     [[tech_researcher, health_researcher, finance_researcher]]
   \<and> map output_key [tech_researcher, health_researcher, finance_researcher] =
       [Some ''tech_research'', Some ''health_research'', Some ''finance_research'']
   \<and> distinct (output_keys parallel_team)
   \<and> (\<forall>a \<in> set (sub_agents parallel_team).
         CHR ''{'' \<notin> set (instruction a)
         \<and> placeholders (instruction a) = []
         \<and> (\<forall>st. resolve st (instruction a) = Inr (instruction a)))"
proof (intro conjI)
  show "concat (map parallel_groups
       [root_agent, build_research_summarizer_coordinator, build_sequential_blog_pipeline,
        build_parallel_research_system, build_loop_refinement_pipeline k]) =
     [[tech_researcher, health_researcher, finance_researcher]]"
    by (simp add: root_agent_def build_research_summarizer_coordinator_def research_agent_def
          summarizer_agent_def build_sequential_blog_pipeline_def outline_agent_def
          writer_agent_def editor_agent_def build_parallel_research_system_def parallel_team_def
          aggregator_agent_def build_loop_refinement_pipeline_def loop_agent_def
          initial_writer_agent_def critic_agent_def refiner_agent_def)
       (simp add: tech_researcher_def health_researcher_def finance_researcher_def)
  show "map output_key [tech_researcher, health_researcher, finance_researcher] =
       [Some ''tech_research'', Some ''health_research'', Some ''finance_research'']"
    by (simp add: research_agents)
  show "distinct (output_keys parallel_team)"
    by (simp add: output_keys_def parallel_team_def tech_researcher_def health_researcher_def
          finance_researcher_def)
  have members: "set (sub_agents parallel_team) =
      {tech_researcher, health_researcher, finance_researcher}"
    by (simp add: parallel_team_def)
  show "\<forall>a \<in> set (sub_agents parallel_team).
         CHR ''{'' \<notin> set (instruction a)
         \<and> placeholders (instruction a) = []
         \<and> (\<forall>st. resolve st (instruction a) = Inr (instruction a))"
    unfolding members
    by (simp add: researchers_no_brace no_brace_placeholders no_brace_resolve)
qed

theorem parallel_members_independent_witness:
  "health_researcher \<in> set (sub_agents parallel_team)
   \<and> placeholders (instruction health_researcher) = []
   \<and> resolve [''tech_research'' \<mapsto> ''t'', ''finance_research'' \<mapsto> ''f'']
         (instruction health_researcher) = Inr (instruction health_researcher)"
  using parallel_members_independent [of 2]
  by (simp add: parallel_team_def)

subsection \<open>The story pipeline and its refinement loop\<close>

lemma story_body_flat: "\<forall>a \<in> set [critic_agent, refiner_agent]. is_unit a"
  by (simp add: story_agents)

lemma story_body_names:
  "name ` set [critic_agent, refiner_agent] = {''CriticAgent'', ''RefinerAgent''}"
  by (simp add: story_agents)

lemma story_body_keys: "keys_of [critic_agent, refiner_agent] = {''critique'', ''current_story''}"
  by (simp add: keys_of_def story_agents insert_commute)

lemma story_run_invariants:
  "length (filter (\<lambda>c. agent_name c = ''InitialWriterAgent'')
       (trace (snd (run_agent endpoint p (build_loop_refinement_pipeline k) start)))) = 1
   \<and> dom (state (snd (run_agent endpoint p (build_loop_refinement_pipeline k) start))) \<subseteq>
       {''current_story'', ''critique''}"
proof -
  let ?body = "[critic_agent, refiner_agent]"
  let ?r = "final (call_with_retry retry_config
      (endpoint 0 ''InitialWriterAgent''
         (projr (resolve Map.empty (instruction initial_writer_agent))) p))"
  let ?c = "\<lparr>agent_name = ''InitialWriterAgent'',
      resolved = projr (resolve Map.empty (instruction initial_writer_agent)),
      answer = ?r, signal = act [] ?r\<rparr>"
  let ?rs1 = "publish (Some ''current_story'') ?r (start\<lparr>trace := [?c]\<rparr>)"
  have u: "run_agent endpoint p initial_writer_agent start = (act [] ?r, ?rs1)"
    by (simp add: unit_step story_agents story_placeholders start_def default_retry_options)
  have t1: "trace ?rs1 = [?c]"
    by (cases ?r) (simp_all add: publish_def start_def)
  have d1: "dom (state ?rs1) \<subseteq> {''current_story''}"
    by (cases ?r) (simp_all add: publish_def start_def)
  show ?thesis
  proof (cases "act [] ?r = Completed")
    case True
    let ?res = "run_loop endpoint p ?body (nat k) 0 ?rs1"
    from flat_loop [OF story_body_flat, of endpoint p "nat k" 0 ?rs1]
    obtain new where new: "trace (after ?res) = trace ?rs1 @ new"
        "\<forall>c \<in> set new. agent_name c \<in> name ` set ?body"
        "dom (state (after ?res)) \<subseteq> dom (state ?rs1) \<union> keys_of ?body"
      by blast
    have run: "snd (run_agent endpoint p (build_loop_refinement_pipeline k) start) = after ?res"
      using u True
      by (simp add: build_loop_refinement_pipeline_def loop_agent_def Let_def
            split: loop_status.splits)
    have "filter (\<lambda>c. agent_name c = ''InitialWriterAgent'') new = []"
      using new(2) unfolding story_body_names by (auto simp: filter_empty_conv)
    with new(1) t1 have "length (filter (\<lambda>c. agent_name c = ''InitialWriterAgent'')
        (trace (after ?res))) = 1"
      by simp
    moreover have "dom (state (after ?res)) \<subseteq> {''current_story'', ''critique''}"
      using new(3) d1 unfolding story_body_keys by blast
    ultimately show ?thesis unfolding run by (rule conjI)
  next
    case False
    with u have run: "snd (run_agent endpoint p (build_loop_refinement_pipeline k) start) = ?rs1"
      by (cases "act [] ?r") (simp_all add: build_loop_refinement_pipeline_def)
    show ?thesis unfolding run using t1 d1 by auto
  qed
qed

text \<open>
  C2. The code does not end the loop where the claim says it ends. The function
  \<^verbatim>\<open>exit_loop\<close> only returns its dictionary and no tool is designated as
  the exit tool of the loop, so a call of \<^verbatim>\<open>exit_loop\<close> raises no exit
  signal. With a model that answers exactly \<^verbatim>\<open>APPROVED\<close> as the critic and
  then calls \<^verbatim>\<open>exit_loop\<close> as the refiner, as the refiner's instruction
  demands, the story pipeline built with \<^verbatim>\<open>max_iterations=2\<close> runs the critic
  and the refiner a second time: the run has five calls, and the loop ends
  exhausted after two iterations.
\<close>

theorem exit_loop_call_leaves_loop_running:
  "FunctionTool ''exit_loop'' \<in> set (tools refiner_agent)
   \<and> call_function ''exit_loop'' = Some (exit_loop ())
   \<and> map (\<lambda>c. (agent_name c, answer c, signal c))
        (trace (snd (run_agent obedient ''a lighthouse keeper''
                       (build_loop_refinement_pipeline 2) start))) =
       [(''InitialWriterAgent'', Text ''A keeper found a map.'', Completed),
        (''CriticAgent'', Text ''APPROVED'', Completed),
        (''RefinerAgent'', CallFunction ''exit_loop'', Completed),
        (''CriticAgent'', Text ''APPROVED'', Completed),
        (''RefinerAgent'', CallFunction ''exit_loop'', Completed)]
   \<and> status (run_loop obedient ''a lighthouse keeper'' [critic_agent, refiner_agent] 2 0
        (snd (run_agent obedient ''a lighthouse keeper'' initial_writer_agent start))) = EXHAUSTED
   \<and> iterations (run_loop obedient ''a lighthouse keeper'' [critic_agent, refiner_agent] 2 0
        (snd (run_agent obedient ''a lighthouse keeper'' initial_writer_agent start))) = 2"
  by (simp add: build_loop_refinement_pipeline_def loop_agent_def unit_step story_agents
        story_placeholders start_def default_retry_options obedient_answers act_text
        act_exit_loop publish_text publish_call numeral_2_eq_2 call_function_def)

text \<open>
  C10. For every \<^verbatim>\<open>max_iterations\<close>, the story pipeline is the sequence of the
  initial writer and the loop, and the body of the loop is the critic followed by
  the refiner. The refiner writes to \<^verbatim>\<open>current_story\<close>, the key of the initial
  writer, so a text of the refiner replaces the story. In every run the initial
  writer is called exactly once, and the shared state never holds a key other
  than \<^verbatim>\<open>current_story\<close> and \<^verbatim>\<open>critique\<close>.
\<close>

theorem story_pipeline_shape:
  "build_loop_refinement_pipeline k =
     SequentialAgent ''StoryPipeline''
       [initial_writer_agent, LoopAgent ''StoryRefinementLoop'' [critic_agent, refiner_agent] k]
   \<and> map name [initial_writer_agent, critic_agent, refiner_agent] =
       [''InitialWriterAgent'', ''CriticAgent'', ''RefinerAgent'']
   \<and> map output_key [initial_writer_agent, critic_agent, refiner_agent] =
       [Some ''current_story'', Some ''critique'', Some ''current_story'']
   \<and> length (filter (\<lambda>c. agent_name c = ''InitialWriterAgent'')
         (trace (snd (run_agent endpoint p (build_loop_refinement_pipeline k) start)))) = 1
   \<and> dom (state (snd (run_agent endpoint p (build_loop_refinement_pipeline k) start))) \<subseteq>
       {''current_story'', ''critique''}
   \<and> state (publish (output_key refiner_agent) (Text t) rs) = (state rs)(''current_story'' \<mapsto> t)"
proof (intro conjI)
  show "build_loop_refinement_pipeline k =
     SequentialAgent ''StoryPipeline''
       [initial_writer_agent, LoopAgent ''StoryRefinementLoop'' [critic_agent, refiner_agent] k]"
    by (simp add: build_loop_refinement_pipeline_def loop_agent_def)
  show "map name [initial_writer_agent, critic_agent, refiner_agent] =
       [''InitialWriterAgent'', ''CriticAgent'', ''RefinerAgent'']"
    by (simp add: story_agents)
  show "map output_key [initial_writer_agent, critic_agent, refiner_agent] =
       [Some ''current_story'', Some ''critique'', Some ''current_story'']"
    by (simp add: story_agents)
  show "length (filter (\<lambda>c. agent_name c = ''InitialWriterAgent'')
         (trace (snd (run_agent endpoint p (build_loop_refinement_pipeline k) start)))) = 1"
    using story_run_invariants [of endpoint p k] by (rule conjunct1)
  show "dom (state (snd (run_agent endpoint p (build_loop_refinement_pipeline k) start))) \<subseteq>
       {''current_story'', ''critique''}"
    using story_run_invariants [of endpoint p k] by (rule conjunct2)
  show "state (publish (output_key refiner_agent) (Text t) rs) = (state rs)(''current_story'' \<mapsto> t)"
    by (simp add: story_agents publish_text)
qed

end
